theory Spec2Isabelle
  imports Complex_Main
begin

section \<open>Strings\<close>

text \<open>
  Python strings are modelled as \<open>string\<close> (lists of characters) over ASCII, and the
  methods of \<open>str\<close> that the matcher calls are written out for that alphabet:
  \<open>isspace\<close> is the white space that \<open>str.strip\<close>, \<open>str.split\<close> and the
  regular-expression class \<open>\\s\<close> share.
\<close>

definition is_digit :: "char \<Rightarrow> bool" where
  "is_digit c = (c \<in> set ''0123456789'')"

definition isdigit :: "string \<Rightarrow> bool" where
  \<comment> \<open>\<open>str.isdigit()\<close>: false on the empty string.\<close>
  "isdigit s = (s \<noteq> [] \<and> list_all is_digit s)"

definition startswith :: "string \<Rightarrow> string \<Rightarrow> bool" where
  "startswith s p = (take (length p) s = p)"

definition endswith :: "string \<Rightarrow> string \<Rightarrow> bool" where
  "endswith s p = (length p \<le> length s \<and> drop (length s - length p) s = p)"

fun contains :: "string \<Rightarrow> string \<Rightarrow> bool" where
  \<comment> \<open>\<open>p in s\<close> for strings.\<close>
  "contains [] p = (p = [])"
| "contains (c # cs) p = (startswith (c # cs) p \<or> contains cs p)"

definition isspace :: "char \<Rightarrow> bool" where
  "isspace c = (c \<in> set [CHR 0x09, CHR 0x0A, CHR 0x0B, CHR 0x0C, CHR 0x0D,
                           CHR 0x1C, CHR 0x1D, CHR 0x1E, CHR 0x1F, CHR 0x20])"

definition strip :: "string \<Rightarrow> string" where
  "strip s = rev (dropWhile isspace (rev (dropWhile isspace s)))"

fun lower_char :: "char \<Rightarrow> char" where
  \<comment> \<open>The capital letters are the codes 0x41 to 0x5A: of the eight bits (lowest first), bit 6
      is set, bits 5 and 7 are clear and the low five bits are a number from 1 to 26. The
      small letter is the same code with bit 5 set.\<close>
  "lower_char (Char b0 b1 b2 b3 b4 b5 b6 b7) =
     (if \<not> b7 \<and> b6 \<and> \<not> b5 \<and> (b0 \<or> b1 \<or> b2 \<or> b3 \<or> b4)
         \<and> \<not> (b4 \<and> b3 \<and> (b2 \<or> (b1 \<and> b0)))
      then Char b0 b1 b2 b3 b4 True b6 b7
      else Char b0 b1 b2 b3 b4 b5 b6 b7)"

definition lower :: "string \<Rightarrow> string" where
  "lower s = map lower_char s"

fun split_on :: "(char \<Rightarrow> bool) \<Rightarrow> string \<Rightarrow> string \<Rightarrow> string list" where
  \<comment> \<open>\<open>re.split\<close> on a class of separator characters followed by the removal of the
      empty pieces (\<open>[t for t in ... if t]\<close>); the second argument is the piece being
      read, reversed.\<close>
  "split_on sep acc [] = (if acc = [] then [] else [rev acc])"
| "split_on sep acc (c # cs) =
     (if sep c then (if acc = [] then split_on sep [] cs else rev acc # split_on sep [] cs)
      else split_on sep (c # acc) cs)"

definition name_tokens :: "string \<Rightarrow> string list" where
  \<comment> \<open>the pieces between runs of white space, apostrophes and hyphens.\<close>
  "name_tokens s = split_on (\<lambda>c. isspace c \<or> c = CHR 0x27 \<or> c = CHR ''-'') [] s"

fun replace :: "string \<Rightarrow> string \<Rightarrow> string \<Rightarrow> string" where
  \<comment> \<open>\<open>s.replace(old, new)\<close> for a non-empty \<open>old\<close>: every occurrence, left to right,
      without overlap.\<close>
  "replace old new [] = []"
| "replace old new (c # cs) =
     (if old \<noteq> [] \<and> startswith (c # cs) old
      then new @ replace old new (drop (length old - 1) cs)
      else c # replace old new cs)"

fun join :: "string \<Rightarrow> string list \<Rightarrow> string" where
  "join sep [] = []"
| "join sep [x] = x"
| "join sep (x # y # ys) = x @ sep @ join sep (y # ys)"

section \<open>NicknameMapper\<close>

definition NICKNAME_GROUPS :: "string list list" where
  "NICKNAME_GROUPS = [
    [''william'', ''will'', ''bill'', ''billy'', ''willy'', ''liam''],
    [''robert'', ''rob'', ''bob'', ''bobby'', ''robbie'', ''bert''],
    [''richard'', ''rich'', ''rick'', ''ricky'', ''dick'', ''richie''],
    [''michael'', ''mike'', ''mikey'', ''mick'', ''mickey'', ''miguel''],
    [''james'', ''jim'', ''jimmy'', ''jamie'', ''jimbo''],
    [''john'', ''johnny'', ''jack'', ''jackie'', ''jon''],
    [''joseph'', ''joe'', ''joey'', ''jose''],
    [''thomas'', ''tom'', ''tommy'', ''thom''],
    [''charles'', ''charlie'', ''chuck'', ''chas'', ''chaz''],
    [''christopher'', ''chris'', ''kit'', ''topher''],
    [''matthew'', ''matt'', ''matty''],
    [''anthony'', ''tony'', ''ant''],
    [''daniel'', ''dan'', ''danny''],
    [''david'', ''dave'', ''davey''],
    [''kenneth'', ''ken'', ''kenny''],
    [''stephen'', ''steve'', ''steven'', ''stevie''],
    [''andrew'', ''andy'', ''drew''],
    [''edward'', ''ed'', ''eddie'', ''ted'', ''teddy'', ''ned''],
    [''lawrence'', ''larry'', ''lars''],
    [''samuel'', ''sam'', ''sammy''],
    [''benjamin'', ''ben'', ''benny'', ''benji''],
    [''alexander'', ''alex'', ''al'', ''xander'', ''lex''],
    [''nicholas'', ''nick'', ''nicky'', ''nico''],
    [''elizabeth'', ''liz'', ''lizzie'', ''beth'', ''betty'', ''betsy'', ''eliza'', ''lisa''],
    [''margaret'', ''maggie'', ''meg'', ''peggy'', ''marge'', ''margie'', ''greta''],
    [''katherine'', ''kate'', ''katie'', ''kathy'', ''kat'', ''kitty'', ''catherine'', ''cathy''],
    [''patricia'', ''pat'', ''patty'', ''patsy'', ''trish'', ''tricia''],
    [''jennifer'', ''jen'', ''jenny''],
    [''jessica'', ''jess'', ''jessie''],
    [''deborah'', ''deb'', ''debbie'', ''debby''],
    [''susan'', ''sue'', ''susie'', ''suzy''],
    [''dorothy'', ''dot'', ''dottie'', ''dolly''],
    [''barbara'', ''barb'', ''barbie'', ''babs''],
    [''rebecca'', ''becca'', ''becky''],
    [''christine'', ''chris'', ''chrissy'', ''tina''],
    [''victoria'', ''vicky'', ''vic'', ''tori''],
    [''alexandra'', ''alex'', ''lexi'', ''lexie'', ''sandra'', ''sandy''],
    [''stephanie'', ''steph'', ''stephie''],
    [''michelle'', ''shelly'', ''michi''],
    [''kimberly'', ''kim'', ''kimmy''],
    [''abigail'', ''abby'', ''gail''],
    [''amanda'', ''mandy'', ''manda''],
    [''angela'', ''angie'', ''angel''],
    [''francisco'', ''frank'', ''pancho'', ''paco'', ''cisco''],
    [''guadalupe'', ''lupe'', ''lupita''],
    [''jose'', ''pepe'', ''joe''],
    [''ignacio'', ''nacho''],
    [''rafael'', ''rafa''],
    [''enrique'', ''henry'', ''quique''],
    [''guillermo'', ''william'', ''memo''],
    [''alejandro'', ''alex'', ''alejo''],
    [''roberto'', ''robert'', ''beto''],
    [''gerald'', ''gerry'', ''jerry''],
    [''raymond'', ''ray''],
    [''ronald'', ''ron'', ''ronnie''],
    [''donald'', ''don'', ''donnie''],
    [''harold'', ''harry'', ''hal''],
    [''francis'', ''frank'', ''fran''],
    [''eugene'', ''gene''],
    [''phillip'', ''phil'', ''philip''],
    [''timothy'', ''tim'', ''timmy''],
    [''gregory'', ''greg'', ''gregg'']
  ]"

definition nickname_to_group :: "string \<rightharpoonup> nat" where
  \<comment> \<open>\<open>_build_lookup_tables\<close>: a name of several groups keeps the index of the last.\<close>
  "nickname_to_group =
     fold (\<lambda>(idx, name_group) tbl. fold (\<lambda>name tbl. tbl(lower name \<mapsto> idx)) name_group tbl)
       (enumerate 0 NICKNAME_GROUPS) Map.empty"

definition get_name_variations :: "string \<Rightarrow> string set" where
  "get_name_variations name =
     (let name_lower = strip (lower name) in
      case nickname_to_group name_lower of
        Some group_idx \<Rightarrow> insert name_lower (set (NICKNAME_GROUPS ! group_idx))
      | None \<Rightarrow> {name_lower})"

definition are_names_related :: "string \<Rightarrow> string \<Rightarrow> bool" where
  "are_names_related name1 name2 =
     (let name1_lower = strip (lower name1); name2_lower = strip (lower name2) in
      if name1_lower = [] \<or> name2_lower = [] then False
      else get_name_variations name1_lower \<inter> get_name_variations name2_lower \<noteq> {})"

section \<open>Name similarity\<close>

text \<open>
  \<open>levenshtein_distance\<close>, lines 263-278: \<open>lev_inner\<close> is the loop over the second
  string that fills \<open>current_row\<close> (its last argument is \<open>current_row[j]\<close>), \<open>lev_rows\<close>
  the loop over the first string.
\<close>

fun lev_inner :: "char \<Rightarrow> nat list \<Rightarrow> string \<Rightarrow> nat \<Rightarrow> nat list" where
  "lev_inner c1 (p0 # p1 # ps) (c2 # cs) cur =
     (let insertions = p1 + 1;
          deletions = cur + 1;
          substitutions = p0 + (if c1 \<noteq> c2 then 1 else 0);
          v = min (min insertions deletions) substitutions
      in v # lev_inner c1 (p1 # ps) cs v)"
| "lev_inner c1 ps cs cur = []"

fun lev_rows :: "nat \<Rightarrow> string \<Rightarrow> string \<Rightarrow> nat list \<Rightarrow> nat list" where
  "lev_rows i [] s2 previous_row = previous_row"
| "lev_rows i (c1 # cs) s2 previous_row =
     lev_rows (i + 1) cs s2 ((i + 1) # lev_inner c1 previous_row s2 (i + 1))"

definition levenshtein_distance :: "string \<Rightarrow> string \<Rightarrow> nat" where
  "levenshtein_distance a b =
     (let s1 = (if length a < length b then b else a);
          s2 = (if length a < length b then a else b)
      in if length s2 = 0 then length s1
         else last (lev_rows 0 s1 s2 [0 ..< length s2 + 1]))"

text \<open>
  \<open>normalize_name_for_matching\<close>, lines 1918-1979. The table \<open>ocr_fixes\<close> is applied in
  its insertion order; its two ligature keys lie outside ASCII, never occur in a string
  of this model and are left out. Doubled letters are collapsed by \<open>remdups_adj\<close>, which
  is what the substitution of \<open>(.)\\1+\<close> by \<open>\\1\<close> does on a token.
\<close>

definition prefixes_to_remove :: "string list" where
  "prefixes_to_remove =
     [''dr.'', ''dr'', ''mr.'', ''mr'', ''mrs.'', ''mrs'', ''ms.'', ''ms'', ''miss'']"

definition suffixes_to_remove :: "string list" where
  "suffixes_to_remove = [''jr.'', ''jr'', ''sr.'', ''sr'', ''ii'', ''iii'', ''iv'']"

definition ocr_fixes :: "(string \<times> string) list" where
  "ocr_fixes =
     [(''0'', ''o''), (''1'', ''l''), (''5'', ''s''), (''8'', ''b''),
      (''rn'', ''m''), (''cl'', ''d''), (''vv'', ''w''), (''ii'', ''n''),
      (''oe'', ''ce''), (''ae'', ''a''),
      (''.'', ''''), (''_'', ''''), (''|'', ''l''), ([CHR 0x5C], ''''), (''/'', '''')]"

definition fix_part :: "string \<Rightarrow> string" where
  "fix_part part =
     (let fixed_part = fold (\<lambda>(bad_char, good_char) s. replace bad_char good_char s) ocr_fixes part
      in if length fixed_part > 2 then
           (let dedupe_part = remdups_adj fixed_part
            in if length dedupe_part \<ge> 2 then dedupe_part else fixed_part)
         else fixed_part)"

definition normalize_name_for_matching :: "string \<Rightarrow> string" where
  "normalize_name_for_matching name =
     (if name = [] \<or> strip name = [] then []
      else
        let normalized = lower (strip name);
            parts = split_on (\<lambda>c. isspace c \<or> c = CHR ''-'' \<or> c = CHR 0x27 \<or> c = CHR ''.'')
                      [] normalized
        in if parts = [] then []
           else
             let cleaned_parts =
                   filter (\<lambda>part. part \<notin> set prefixes_to_remove \<and> part \<notin> set suffixes_to_remove)
                     parts;
                 cleaned_parts = (if cleaned_parts = [] then parts else cleaned_parts)
             in join '' '' (map fix_part cleaned_parts))"

fun soundex_loop :: "string \<Rightarrow> string \<Rightarrow> string" where
  \<comment> \<open>the loop of \<open>simple_soundex\<close>; the first argument is \<open>result\<close>.\<close>
  "soundex_loop result [] = result"
| "soundex_loop result (c # cs) =
     (if c \<notin> set ''aeiou'' \<and> (result = [] \<or> c \<noteq> last result)
      then soundex_loop (result @ [c]) cs
      else soundex_loop result cs)"

definition simple_soundex :: "string \<Rightarrow> string" where
  "simple_soundex name =
     (case name of
        [] \<Rightarrow> []
      | c # cs \<Rightarrow>
          (let result = take 4 (soundex_loop [c] cs)
           in result @ replicate (4 - length result) CHR ''0''))"

record similarity_result =
  similarity :: rat
  match_type :: string
  score :: int

text \<open>
  \<open>calculate_enhanced_similarity\<close>, lines 1981-2051. The ratios are Python floats in
  the source and rational numbers here.
\<close>

definition calculate_enhanced_similarity :: "string \<Rightarrow> string \<Rightarrow> similarity_result" where
  "calculate_enhanced_similarity name1 name2 =
     (if name1 = [] \<or> name2 = [] then
        \<lparr>similarity = 0, match_type = ''no_data'', score = 0\<rparr>
      else
        let norm1 = normalize_name_for_matching name1;
            norm2 = normalize_name_for_matching name2
        in if norm1 = [] \<or> norm2 = [] then
             \<lparr>similarity = 0, match_type = ''empty_after_norm'', score = 0\<rparr>
           else if norm1 = norm2 then
             \<lparr>similarity = 1, match_type = ''exact_normalized'', score = 15\<rparr>
           else
             let shorter = (if length norm1 < length norm2 then norm1 else norm2);
                 longer = (if length norm1 < length norm2 then norm2 else norm1)
             in if length shorter \<ge> 2 \<and> contains longer shorter \<and> startswith longer shorter then
                  \<lparr>similarity = 95 / 100, match_type = ''prefix_truncation'', score = 12\<rparr>
                else if length shorter \<ge> 2 \<and> contains longer shorter \<and> endswith longer shorter then
                  \<lparr>similarity = 95 / 100, match_type = ''suffix_truncation'', score = 12\<rparr>
                else if length shorter \<ge> 2 \<and> contains longer shorter then
                  \<lparr>similarity = 85 / 100, match_type = ''substring_truncation'', score = 10\<rparr>
                else
                  let distance = levenshtein_distance norm1 norm2;
                      max_len = max (length norm1) (length norm2);
                      levenshtein_similarity =
                        (if max_len > 0 then 1 - of_nat distance / of_nat max_len else 0);
                      chars1 = set norm1;
                      chars2 = set norm2;
                      char_overlap =
                        (if chars1 \<noteq> {} \<or> chars2 \<noteq> {}
                         then of_nat (card (chars1 \<inter> chars2)) / of_nat (card (chars1 \<union> chars2))
                         else 0);
                      phonetic_match = (simple_soundex norm1 = simple_soundex norm2)
                  in if levenshtein_similarity \<ge> 9 / 10 then
                       \<lparr>similarity = levenshtein_similarity, match_type = ''high_similarity'',
                        score = 12\<rparr>
                     else if levenshtein_similarity \<ge> 8 / 10 then
                       \<lparr>similarity = levenshtein_similarity, match_type = ''good_similarity'',
                        score = 10\<rparr>
                     else if levenshtein_similarity \<ge> 7 / 10 then
                       \<lparr>similarity = levenshtein_similarity, match_type = ''fair_similarity'',
                        score = 8\<rparr>
                     else if levenshtein_similarity \<ge> 6 / 10 then
                       \<lparr>similarity = levenshtein_similarity, match_type = ''weak_similarity'',
                        score = 5\<rparr>
                     else if phonetic_match \<and> char_overlap > 5 / 10 then
                       \<lparr>similarity = 6 / 10, match_type = ''phonetic_match'', score = 6\<rparr>
                     else if char_overlap > 7 / 10 then
                       \<lparr>similarity = char_overlap, match_type = ''character_overlap'', score = 4\<rparr>
                     else
                       \<lparr>similarity = levenshtein_similarity, match_type = ''poor_match'',
                        score = 0\<rparr>)"

section \<open>Name score\<close>

text \<open>
  The matcher decides whether a stored name fits a query name by compiling a regular
  expression from the query (\<open>_build_regex_for_name_part\<close>,
  \<open>_build_regex_for_name_with_nicknames\<close>) and searching the stored name with the
  \<open>re\<close> module. The regular-expression engine is a collaborator of the matcher; it is
  a parameter of the model: \<open>part_search rx q s\<close> is the outcome of
  \<open>_get_compiled_regex(_build_regex_for_name_part(q)).search(s)\<close> and
  \<open>nick_search rx q s\<close> that of the nickname-aware pattern. \<open>RxError\<close> is the exception
  \<open>re.error\<close>, which the source catches.
\<close>

datatype rx_result = RxMatch | RxNoMatch | RxError

record name_regex =
  nick_search :: "string \<Rightarrow> string \<Rightarrow> rx_result"
  part_search :: "string \<Rightarrow> string \<Rightarrow> rx_result"

fun ln_parts_loop :: "name_regex \<Rightarrow> string list \<Rightarrow> string \<Rightarrow> rx_result" where
  \<comment> \<open>lines 495-503: the first part of the criteria's last name that matches ends the loop.\<close>
  "ln_parts_loop rx [] claim_ln_clean = RxNoMatch"
| "ln_parts_loop rx (part # parts) claim_ln_clean =
     (case part_search rx part claim_ln_clean of
        RxMatch \<Rightarrow> RxMatch
      | RxNoMatch \<Rightarrow> ln_parts_loop rx parts claim_ln_clean
      | RxError \<Rightarrow> RxError)"

definition ln_score_component :: "name_regex \<Rightarrow> string \<Rightarrow> string \<Rightarrow> int" where
  \<comment> \<open>lines 479-519, for a criteria last name and a claim last name that are both present.\<close>
  "ln_score_component rx crit_ln_q claim_ln_clean =
     (case part_search rx crit_ln_q claim_ln_clean of
        RxError \<Rightarrow> 0
      | RxMatch \<Rightarrow> 15
      | RxNoMatch \<Rightarrow>
          (let crit_ln_parts = name_tokens crit_ln_q in
           case (if length crit_ln_parts > 1 then ln_parts_loop rx crit_ln_parts claim_ln_clean
                 else RxNoMatch) of
             RxError \<Rightarrow> 0
           | RxMatch \<Rightarrow> 15
           | RxNoMatch \<Rightarrow>
               (let similarity_result = calculate_enhanced_similarity crit_ln_q claim_ln_clean
                in if score similarity_result > 0 then score similarity_result else 0)))"

definition opt_clean :: "string option \<Rightarrow> string" where
  \<comment> \<open>\<open>x.strip().lower() if x else ""\<close>\<close>
  "opt_clean x = (case x of None \<Rightarrow> [] | Some s \<Rightarrow> lower (strip s))"

definition calculate_name_match_score_with_nicknames ::
  "name_regex \<Rightarrow> string option \<Rightarrow> string option \<Rightarrow> string \<Rightarrow> string \<Rightarrow> int" where
  "calculate_name_match_score_with_nicknames rx claim_patient_fn claim_patient_ln
       criteria_patient_fn_query criteria_patient_ln_query =
     (if criteria_patient_fn_query = [] then 0
      else
        let crit_fn_q = lower (strip criteria_patient_fn_query);
            crit_ln_q = lower (strip criteria_patient_ln_query)
        in if crit_fn_q = [] then 0
           else
             let claim_fn_clean = opt_clean claim_patient_fn;
                 claim_ln_clean = opt_clean claim_patient_ln
             in if claim_fn_clean = [] then 0
                else if \<not> (if are_names_related crit_fn_q claim_fn_clean then True
                            else (case nick_search rx crit_fn_q claim_fn_clean of
                                    RxMatch \<Rightarrow> True
                                  | RxNoMatch \<Rightarrow> False
                                  | RxError \<Rightarrow> False)) then 0
                else
                  let fn_score_component = 15;
                      ln_component =
                        (if crit_ln_q \<noteq> [] then
                           (if claim_ln_clean = [] then 0
                            else ln_score_component rx crit_ln_q claim_ln_clean)
                         else (if fn_score_component = 15 then 15 else 0))
                  in fn_score_component + ln_component)"

section \<open>Procedure codes\<close>

text \<open>
  \<open>normalize_procedure_code\<close>, lines 280-292. The \<open>while\<close> loop that drops leading
  zeros as long as more than four digits remain is \<open>strip_zeros\<close>.
\<close>

fun strip_zeros :: "string \<Rightarrow> string" where
  "strip_zeros [] = []"
| "strip_zeros (c # cs) =
     (if length (c # cs) > 4 \<and> c = CHR ''0'' then strip_zeros cs else c # cs)"

definition normalize_procedure_code :: "string \<Rightarrow> string" where
  "normalize_procedure_code code =
     (if code = [] then code
      else if startswith code ''D'' \<and> length code > 5 \<and> isdigit (tl code) then
        (let digits = tl code;
             digits = (if length digits > 4 then strip_zeros digits else digits)
         in CHR ''D'' # digits)
      else if \<not> startswith code ''D'' \<and> isdigit code then CHR ''D'' # code
      else code)"

text \<open>
  \<open>_match_procedure_codes\<close>, lines 294-341. The percentage is a Python float in the
  source and a rational number here; \<open>matched_codes\<close> is built by iterating over a set,
  in no specified order, and is modelled as a set.
\<close>

record proc_match =
  match_percentage :: rat
  matched_codes :: "string set"

definition match_procedure_codes :: "string list \<Rightarrow> string list \<Rightarrow> proc_match" where
  "match_procedure_codes payment_codes db_codes =
     (if payment_codes = [] \<or> db_codes = [] then
        \<lparr>match_percentage = 0, matched_codes = {}\<rparr>
      else if card (set payment_codes) = 1 \<and> card (set db_codes) = 1
              \<and> normalize_procedure_code (hd payment_codes) = normalize_procedure_code (hd db_codes)
      then \<lparr>match_percentage = 1, matched_codes = {hd payment_codes}\<rparr>
      else
        let payment_code_set = set payment_codes;
            db_code_set = set db_codes;
            normalized_payment_codes = normalize_procedure_code ` payment_code_set;
            normalized_db_codes = normalize_procedure_code ` db_code_set;
            matching_normalized_codes = normalized_payment_codes \<inter> normalized_db_codes;
            matched = {pcode \<in> payment_code_set.
                         normalize_procedure_code pcode \<in> matching_normalized_codes};
            match_count = card matching_normalized_codes;
            pct = (if normalized_payment_codes \<noteq> {}
                   then of_nat match_count / of_nat (card normalized_payment_codes) else 0)
        in \<lparr>match_percentage = pct, matched_codes = matched\<rparr>)"

section \<open>Data model\<close>

record ProcedurePayment =
  proc_code :: string
  submitted_amt :: rat
  amount_paid :: rat
  remarks :: string
  deductible :: rat
  writeoff :: rat
  markAsNotReceived :: bool

record PaymentInfo =
  procedures :: "ProcedurePayment list"
  check_number :: "string option"
  check_amount :: "rat option"
  date_issued :: "string option"
  bank_branch :: "string option"
  carrier_name :: "string option"
  pay_type :: "int option"
  pi_note :: "string option"

record SearchCriteria =
  date_of_service :: string
  patient_first_name :: string
  patient_last_name :: string
  subscriber_first_name :: string
  subscriber_last_name :: string
  payment_info :: PaymentInfo

text \<open>
  Claims, procedure lines and patients are dictionaries in the source. Each is a record
  here with one optional field for every key that the matcher reads to take a decision;
  \<open>None\<close> is a missing key. The prefixes keep the field names of different records apart.
  The claim fee is the one value whose null is told apart from a missing key, because
  the source converts it without a guard: \<open>pynum\<close> is a JSON number or null.

  An amount is a rational number: the decimal numeral of the document, or the double
  that Python made of it, as its exact value. The functions below read every amount
  through \<open>float_of\<close> (section Floating point), which turns the first into the second
  and leaves the second unchanged.

  The exceptions that the source can raise are the values of \<open>error\<close>.
\<close>

datatype error = TypeError | KeyError | IndexError | ValueError | RequestError

record claim_proc =
  cp_proc_code :: "string option"
  cp_code :: "string option"
  cp_CodeSent :: "string option"
  cp_fee_billed :: "rat option"
  cp_FeeBilled :: "rat option"

datatype pynum = PyNone | PyNum rat

record api_claim =
  ac_ClaimNum :: "int option"
  ac_PatNum :: "int option"
  ac_DateService :: "string option"
  ac_ClaimStatus :: "string option"
  ac_ClaimType :: "string option"
  ac_InsSubNum2 :: "int option"
  ac_PlanNum2 :: "int option"
  ac_ClaimFee :: "pynum option"

record patient_details =
  pd_PatNum :: "int option"
  pd_FName :: "string option"
  pd_LName :: "string option"

text \<open>Truthiness of optional values, and Python's \<open>a or b\<close> on them.\<close>

definition str_truthy :: "string option \<Rightarrow> bool" where
  "str_truthy x = (case x of None \<Rightarrow> False | Some s \<Rightarrow> s \<noteq> [])"

definition num_truthy :: "'a::zero option \<Rightarrow> bool" where
  "num_truthy x = (case x of None \<Rightarrow> False | Some n \<Rightarrow> n \<noteq> 0)"

definition or_str :: "string option \<Rightarrow> string option \<Rightarrow> string option" where
  "or_str a b = (if str_truthy a then a else b)"

definition or_num :: "'a::zero option \<Rightarrow> 'a option \<Rightarrow> 'a option" where
  "or_num a b = (if num_truthy a then a else b)"

section \<open>Floating point\<close>

text \<open>
  Python's \<open>float\<close> is the binary64 format of IEEE 754. A finite double is represented
  by its exact value, a rational number; \<open>round_double\<close> rounds a rational number to
  the nearest double, a tie to the even significand, with gradual underflow below
  \<open>2 ^ -1022\<close>. An operation on doubles is the exact operation followed by that rounding.
  Overflow (a magnitude of \<open>2 ^ 1024\<close> or more) is outside the model.
\<close>

function bit_length :: "int \<Rightarrow> int" where
  "bit_length n = (if n \<le> 0 then 0 else 1 + bit_length (n div 2))"
  by pat_completeness auto
termination
  by (relation "measure nat") auto

definition pow2 :: "int \<Rightarrow> rat" where
  "pow2 e = (if e \<ge> 0 then 2 ^ nat e else 1 / 2 ^ nat (- e))"

definition floor_log2 :: "rat \<Rightarrow> int" where
  \<comment> \<open>for positive \<open>x\<close>, the exponent \<open>e\<close> with \<open>2 ^ e \<le> x < 2 ^ (e + 1)\<close>\<close>
  "floor_log2 x =
     (case quotient_of x of
        (a, b) \<Rightarrow>
          (let d = bit_length a - bit_length b
           in if pow2 d \<le> x then d else d - 1))"

definition round_half_even :: "rat \<Rightarrow> int" where
  "round_half_even q =
     (let f = \<lfloor>q\<rfloor>; r = q - of_int f
      in if r < 1 / 2 then f
         else if r > 1 / 2 then f + 1
         else if even f then f else f + 1)"

definition round_double :: "rat \<Rightarrow> rat" where
  "round_double x =
     (if x = 0 then 0
      else
        let e = max (floor_log2 \<bar>x\<bar>) (- 1022);
            ulp = pow2 (e - 52)
        in of_int (round_half_even (x / ulp)) * ulp)"

definition float_of :: "rat \<Rightarrow> rat" where
  \<comment> \<open>\<open>float(x)\<close>, and the double of a decimal literal such as \<open>0.02\<close>\<close>
  "float_of x = round_double x"

definition float_add :: "rat \<Rightarrow> rat \<Rightarrow> rat" where
  "float_add a b = round_double (a + b)"

definition float_sub :: "rat \<Rightarrow> rat \<Rightarrow> rat" where
  "float_sub a b = round_double (a - b)"

definition float_div :: "rat \<Rightarrow> rat \<Rightarrow> rat" where
  "float_div a b = round_double (a / b)"

section \<open>Dates\<close>

text \<open>
  \<open>datetime.strptime(s, '%Y-%m-%d').date()\<close>: four digits, a month and a day of one or
  two digits (the day may also be a space and a digit), nothing else, and a date that
  exists. \<open>None\<close> is the exception \<open>ValueError\<close>.
\<close>

type_synonym date = "nat \<times> nat \<times> nat"

fun split_char :: "char \<Rightarrow> string \<Rightarrow> string \<Rightarrow> string list" where
  \<comment> \<open>the fields between occurrences of a character; the second argument is the field
      being read, reversed.\<close>
  "split_char d acc [] = [rev acc]"
| "split_char d acc (c # cs) =
     (if c = d then rev acc # split_char d [] cs else split_char d (c # acc) cs)"

definition digits_val :: "string \<Rightarrow> nat" where
  "digits_val s = fold (\<lambda>c n. 10 * n + (of_char c - 48)) s 0"

definition days_in_month :: "nat \<Rightarrow> nat \<Rightarrow> nat" where
  "days_in_month y m =
     (if m = 2 then (if y mod 4 = 0 \<and> (y mod 100 \<noteq> 0 \<or> y mod 400 = 0) then 29 else 28)
      else if m \<in> {4, 6, 9, 11} then 30 else 31)"

definition strptime :: "string \<Rightarrow> date option" where
  "strptime s =
     (case split_char CHR ''-'' [] s of
        [ys, ms, ds] \<Rightarrow>
          (let ds' = (if length ds = 2 \<and> hd ds = CHR '' '' \<and> hd (tl ds) \<noteq> CHR ''0''
                      then tl ds else ds);
               y = digits_val ys; m = digits_val ms; d = digits_val ds'
           in if isdigit ys \<and> length ys = 4
                 \<and> isdigit ms \<and> length ms \<le> 2 \<and> 1 \<le> m \<and> m \<le> 12
                 \<and> isdigit ds' \<and> length ds' \<le> 2 \<and> 1 \<le> d
                 \<and> 1 \<le> y \<and> d \<le> days_in_month y m
              then Some (y, m, d) else None)
      | _ \<Rightarrow> None)"

section \<open>Override rules\<close>

text \<open>
  \<open>_has_strong_non_procedure_match_with_fees\<close>, lines 1743-1832. \<open>pms_fees_loop\<close> and
  \<open>eob_fees_loop\<close> are the two loops that collect the positive fees, \<open>fee_matches_loop\<close>
  the loop over the pairs of the sorted lists. The amounts are doubles, and the
  subtraction, the two divisions and the constants \<open>0.02\<close> and \<open>0.8\<close> are those of
  doubles; \<open>1.0\<close> and \<open>0\<close> are doubles already.
\<close>

definition num_get :: "rat option \<Rightarrow> rat option" where
  \<comment> \<open>the number under a key of a dictionary, as Python holds it\<close>
  "num_get v = map_option float_of v"

definition fee_billed_of :: "claim_proc \<Rightarrow> rat" where
  \<comment> \<open>\<open>proc.get('fee_billed') or proc.get('FeeBilled') or 0\<close>\<close>
  "fee_billed_of proc =
     (case or_num (or_num (num_get (cp_fee_billed proc)) (num_get (cp_FeeBilled proc))) (Some 0) of
        Some v \<Rightarrow> v
      | None \<Rightarrow> 0)"

fun pms_fees_loop :: "claim_proc list \<Rightarrow> rat list" where
  "pms_fees_loop [] = []"
| "pms_fees_loop (proc # procs) =
     (let fee_billed = fee_billed_of proc
      in if fee_billed \<noteq> 0 \<and> float_of fee_billed > 0
         then float_of fee_billed # pms_fees_loop procs
         else pms_fees_loop procs)"

fun eob_fees_loop :: "ProcedurePayment list \<Rightarrow> rat list" where
  "eob_fees_loop [] = []"
| "eob_fees_loop (proc # procs) =
     (let submitted = float_of (submitted_amt proc)
      in if submitted > 0 then float_of submitted # eob_fees_loop procs
         else eob_fees_loop procs)"

fun fee_matches_loop :: "(rat \<times> rat) list \<Rightarrow> nat" where
  "fee_matches_loop [] = 0"
| "fee_matches_loop ((pms_fee, eob_fee) # rest) =
     (let fee_diff = \<bar>float_sub pms_fee eob_fee\<bar>;
          fee_ratio = (if max pms_fee eob_fee > 0 then float_div fee_diff (max pms_fee eob_fee)
                       else 0)
      in if fee_diff \<le> 1 \<or> fee_ratio \<le> float_of (2 / 100) then fee_matches_loop rest + 1
         else fee_matches_loop rest)"

definition has_strong_non_procedure_match_with_fees ::
  "date \<Rightarrow> date \<Rightarrow> int \<Rightarrow> claim_proc list \<Rightarrow> ProcedurePayment list \<Rightarrow> bool" where
  "has_strong_non_procedure_match_with_fees claim_date_obj target_date_obj name_score
       claim_procedures eob_procedures =
     (if claim_date_obj \<noteq> target_date_obj then False
      else if name_score < 25 then False
      else if claim_procedures = [] \<or> eob_procedures = [] then False
      else
        let pms_fees = pms_fees_loop claim_procedures;
            eob_fees = eob_fees_loop eob_procedures
        in if pms_fees = [] \<or> eob_fees = [] then False
           else
             let pms_fees_sorted = sort pms_fees;
                 eob_fees_sorted = sort eob_fees
             in if length pms_fees_sorted \<noteq> length eob_fees_sorted then False
                else
                  let fee_matches = fee_matches_loop (zip pms_fees_sorted eob_fees_sorted);
                      total_fees = length pms_fees_sorted;
                      fee_match_percentage = float_div (of_nat fee_matches) (of_nat total_fees)
                  in if fee_match_percentage \<ge> float_of (8 / 10) then True else False)"

text \<open>\<open>_has_procedure_count_match\<close>, lines 1834-1880.\<close>

definition has_procedure_count_match ::
  "date \<Rightarrow> date \<Rightarrow> int \<Rightarrow> claim_proc list \<Rightarrow> ProcedurePayment list \<Rightarrow> bool" where
  "has_procedure_count_match claim_date_obj target_date_obj name_score
       claim_procedures eob_procedures =
     (if claim_date_obj \<noteq> target_date_obj then False
      else if name_score < 20 then False
      else
        let claim_proc_count = length claim_procedures;
            eob_proc_count = length eob_procedures
        in if claim_proc_count = 0 \<and> eob_proc_count = 0 then True
           else if claim_proc_count = eob_proc_count \<and> claim_proc_count > 0 then True
           else False)"

section \<open>The name gate\<close>

text \<open>
  Lines 585-616 of \<open>_score_api_claim_candidate\<close> and lines 993-1025 of
  \<open>filter_cached_claims\<close> are the same code: the name score of the criteria's names
  and, when it is below 20, the score of the names swapped. \<open>None\<close> is the rejection.
\<close>

definition name_gate ::
  "name_regex \<Rightarrow> string option \<Rightarrow> string option \<Rightarrow> string \<Rightarrow> string \<Rightarrow> int option" where
  "name_gate rx claim_fn claim_ln crit_fn crit_ln =
     (let name_score = calculate_name_match_score_with_nicknames rx claim_fn claim_ln crit_fn crit_ln
      in if name_score < 20 then
           (let swapped_criteria_fn = crit_ln;
                swapped_criteria_ln = crit_fn;
                swapped_name_score =
                  calculate_name_match_score_with_nicknames rx claim_fn claim_ln
                    swapped_criteria_fn swapped_criteria_ln
            in if swapped_name_score \<ge> 20 then Some swapped_name_score else None)
         else Some name_score)"

section \<open>ClaimCandidateScorer\<close>

text \<open>
  \<open>_score_api_claim_candidate\<close>, lines 532-695. Every rejection of the source returns
  \<open>(0, False, '')\<close> after logging which check failed; \<open>api_candidate_verdict\<close> keeps
  the check, and \<open>score_api_claim_candidate\<close> is the value the source returns.
  \<open>api_procedure_gate\<close> is the fourth check, lines 619-688: \<open>None\<close> is the rejection,
  otherwise the two override flags. When the codes match at 49 percent or less, lines
  651-652 add up the amounts paid and convert the claim fee before either override is
  tried; neither result is used afterwards, but \<open>float\<close> of a null claim fee raises
  \<open>TypeError\<close>, which leaves the scorer: \<open>Inl\<close> is that exception.
\<close>

datatype gate = DateGate | StatusGate | NameGate | ProcedureGate

datatype verdict = Rejected gate | Passed int bool string

definition claim_fee_of :: "api_claim \<Rightarrow> error + rat" where
  \<comment> \<open>\<open>float(api_claim_data.get('ClaimFee', 0))\<close>, line 652\<close>
  "claim_fee_of api_claim_data =
     (case ac_ClaimFee api_claim_data of
        None \<Rightarrow> Inr 0
      | Some PyNone \<Rightarrow> Inl TypeError
      | Some (PyNum v) \<Rightarrow> Inr (float_of v))"

definition api_procedure_gate ::
  "date \<Rightarrow> date \<Rightarrow> int \<Rightarrow> api_claim \<Rightarrow> claim_proc list \<Rightarrow> SearchCriteria
     \<Rightarrow> error + (bool \<times> string) option" where
  "api_procedure_gate claim_date_obj target_date_obj name_score api_claim_data
       claim_procedures_from_api criteria =
     (let eob_procedures = procedures (payment_info criteria) in
      if eob_procedures \<noteq> [] \<and> claim_procedures_from_api \<noteq> [] then
        let payment_proc_codes_normalized = map proc_code eob_procedures;
            api_claim_proc_codes_normalized =
              map (\<lambda>proc. normalize_procedure_code
                             (case cp_CodeSent proc of None \<Rightarrow> [] | Some c \<Rightarrow> c))
                claim_procedures_from_api;
            procedure_match_percentage =
              (if payment_proc_codes_normalized = [] \<and> api_claim_proc_codes_normalized = [] then 1
               else if payment_proc_codes_normalized \<noteq> [] \<and> api_claim_proc_codes_normalized = []
               then 0
               else if payment_proc_codes_normalized = [] \<and> api_claim_proc_codes_normalized \<noteq> []
               then 0
               else match_percentage
                      (match_procedure_codes payment_proc_codes_normalized
                         api_claim_proc_codes_normalized))
        in if procedure_match_percentage > 49 / 100 then Inr (Some (False, ''''))
           else
             (let payment_total =
                    foldl (\<lambda>total p. float_add total (float_of (amount_paid p))) 0 eob_procedures
              in case claim_fee_of api_claim_data of
                   Inl e \<Rightarrow> Inl e
                 | Inr claim_fee_value \<Rightarrow>
                     if has_strong_non_procedure_match_with_fees claim_date_obj target_date_obj
                          name_score claim_procedures_from_api eob_procedures
                     then Inr (Some (True, ''fee_match''))
                     else if has_procedure_count_match claim_date_obj target_date_obj
                               name_score claim_procedures_from_api eob_procedures
                     then Inr (Some (True, ''count_match''))
                     else Inr None)
      else if eob_procedures = [] \<and> claim_procedures_from_api = [] then Inr (Some (False, ''''))
      else if eob_procedures = [] \<and> claim_procedures_from_api \<noteq> [] then Inr None
      else if eob_procedures \<noteq> [] \<and> claim_procedures_from_api = [] then Inr None
      else Inr (Some (False, '''')))"

definition api_candidate_verdict ::
  "name_regex \<Rightarrow> api_claim \<Rightarrow> claim_proc list \<Rightarrow> SearchCriteria \<Rightarrow> patient_details
     \<Rightarrow> error + verdict" where
  "api_candidate_verdict rx api_claim_data claim_procedures_from_api criteria
       claim_owner_patient_details =
     (case (strptime (case ac_DateService api_claim_data of None \<Rightarrow> [] | Some s \<Rightarrow> s),
            strptime (date_of_service criteria)) of
        (Some claim_date_obj, Some target_date_obj) \<Rightarrow>
          if claim_date_obj \<noteq> target_date_obj then Inr (Rejected DateGate)
          else if ac_ClaimStatus api_claim_data \<notin> {Some ''S'', Some ''H''}
          then Inr (Rejected StatusGate)
          else
            (case name_gate rx (pd_FName claim_owner_patient_details)
                    (pd_LName claim_owner_patient_details)
                    (patient_first_name criteria) (patient_last_name criteria) of
               None \<Rightarrow> Inr (Rejected NameGate)
             | Some name_score \<Rightarrow>
                 (case api_procedure_gate claim_date_obj target_date_obj name_score
                         api_claim_data claim_procedures_from_api criteria of
                    Inl e \<Rightarrow> Inl e
                  | Inr None \<Rightarrow> Inr (Rejected ProcedureGate)
                  | Inr (Some (used_alternate_benefit, override_type)) \<Rightarrow>
                      Inr (Passed (30 + 10 + name_score + 30) used_alternate_benefit
                             override_type)))
      | _ \<Rightarrow> Inr (Rejected DateGate))"

definition score_api_claim_candidate ::
  "name_regex \<Rightarrow> api_claim \<Rightarrow> claim_proc list \<Rightarrow> SearchCriteria \<Rightarrow> patient_details
     \<Rightarrow> error + int \<times> bool \<times> string" where
  "score_api_claim_candidate rx api_claim_data claim_procedures_from_api criteria
       claim_owner_patient_details =
     (case api_candidate_verdict rx api_claim_data claim_procedures_from_api criteria
             claim_owner_patient_details of
        Inl e \<Rightarrow> Inl e
      | Inr (Rejected g) \<Rightarrow> Inr (0, False, '''')
      | Inr (Passed current_score used_alternate_benefit override_type) \<Rightarrow>
          Inr (current_score, used_alternate_benefit, override_type))"

section \<open>ClaimMatch\<close>

text \<open>
  The fields of \<open>ClaimMatch\<close> that the matcher computes. The fields that are copied
  from the claim unchanged (fee, dates sent and received, note, carrier, orthodontic
  details) and the pass-through columns of a procedure line are left out.
  \<open>is_secondary\<close> of a cached claim may be a boolean, a string or null, so the field
  holds a Python value, read through its truthiness.
\<close>

datatype pyflag = PNone | PBool bool | PStr string

definition flag_truthy :: "pyflag \<Rightarrow> bool" where
  "flag_truthy v = (case v of PNone \<Rightarrow> False | PBool b \<Rightarrow> b | PStr s \<Rightarrow> s \<noteq> [])"

record match_proc =
  mp_CodeSent :: "string option"
  mp_FeeBilled :: rat

record ClaimMatch =
  claim_num :: int
  pat_num :: "int option"
  cm_date_of_service :: string
  is_secondary :: pyflag
  has_secondary_plan :: bool
  has_pending_secondary :: bool
  match_score :: "int option"
  match_source :: string
  claim_procs :: "match_proc list"
  is_supplemental :: bool
  claim_status :: "string option"

text \<open>
  The end of both searches, lines 1218-1236 and 1546-1560: when primary and secondary
  matches both exist, every primary is flagged and both groups are returned.
\<close>

definition prioritize :: "ClaimMatch list \<Rightarrow> ClaimMatch list \<Rightarrow> ClaimMatch list" where
  "prioritize primary_matches secondary_matches =
     (if primary_matches \<noteq> [] then
        (if secondary_matches \<noteq> [] then
           map (\<lambda>p_match. p_match\<lparr>has_pending_secondary := True\<rparr>) primary_matches
             @ secondary_matches
         else primary_matches)
      else if secondary_matches \<noteq> [] then secondary_matches
      else [])"

definition sort_by_score :: "('a \<Rightarrow> int) \<Rightarrow> 'a list \<Rightarrow> 'a list" where
  \<comment> \<open>\<open>sorted(xs, key=score, reverse=True)\<close>: descending, equal scores in their order.\<close>
  "sort_by_score f xs = sort_key (\<lambda>x. - f x) xs"

definition score_of :: "ClaimMatch \<Rightarrow> int" where
  "score_of m = (case match_score m of Some s \<Rightarrow> s | None \<Rightarrow> 0)"

section \<open>Path A: cached claims\<close>

record cached_claim =
  cc_claim_num :: "int option"
  cc_ClaimNum :: "int option"
  cc_pat_num :: "int option"
  cc_PatNum :: "int option"
  cc_date_of_service :: "string option"
  cc_claim_date :: "string option"
  cc_DateService :: "string option"
  cc_claim_status :: "string option"
  cc_ClaimStatus :: "string option"
  cc_is_secondary :: "pyflag option"
  cc_IsSecondary :: "pyflag option"
  cc_patient_first_name :: "string option"
  cc_pat_fn :: "string option"
  cc_patient_last_name :: "string option"
  cc_pat_ln :: "string option"
  cc_procedures :: "claim_proc list option"
  cc_claim_procs :: "claim_proc list option"
  cc_subscriber_first_name :: "string option"
  cc_subscriber_last_name :: "string option"
  cc_plan_type :: "string option"
  cc_ClaimType :: "string option"
  cc_has_secondary_plan :: "bool option"
  cc_is_supplemental :: "bool option"

text \<open>
  The body of the loop over the cached claims, lines 939-1207, is \<open>cached_claim_step\<close>;
  its parts are defined first. A \<open>continue\<close> is
  \<open>Skipped\<close> with the counter that the source increments, an exception that leaves the
  function is \<open>Raised\<close>, and a claim that passes is \<open>Matched\<close>.
\<close>

datatype skip = MissingData | DateSkip | StatusSkip | NameSkip | ProcedureSkip

datatype cache_step = Skipped skip | Raised error | Matched ClaimMatch

definition proc_code_of :: "claim_proc \<Rightarrow> string option" where
  \<comment> \<open>\<open>proc.get('proc_code') or proc.get('code') or proc.get('CodeSent')\<close>\<close>
  "proc_code_of proc = or_str (or_str (cp_proc_code proc) (cp_code proc)) (cp_CodeSent proc)"

fun db_codes_loop :: "claim_proc list \<Rightarrow> string list" where
  \<comment> \<open>lines 1033-1036\<close>
  "db_codes_loop [] = []"
| "db_codes_loop (proc_item # rest) =
     (case proc_code_of proc_item of
        Some code \<Rightarrow>
          (if code \<noteq> [] then normalize_procedure_code code # db_codes_loop rest
           else db_codes_loop rest)
      | None \<Rightarrow> db_codes_loop rest)"

fun cached_match_procs :: "claim_proc list \<Rightarrow> match_proc list" where
  \<comment> \<open>lines 1117-1143\<close>
  "cached_match_procs [] = []"
| "cached_match_procs (proc_data # rest) =
     (case proc_code_of proc_data of
        Some code_sent \<Rightarrow>
          (if code_sent \<noteq> [] then
             \<lparr>mp_CodeSent = Some (normalize_procedure_code code_sent),
              mp_FeeBilled = fee_billed_of proc_data\<rparr>
               # cached_match_procs rest
           else cached_match_procs rest)
      | None \<Rightarrow> cached_match_procs rest)"

definition cached_procedure_percentage :: "string list \<Rightarrow> string list \<Rightarrow> rat" where
  \<comment> \<open>lines 1041-1049\<close>
  "cached_procedure_percentage payment_proc_codes_normalized db_claim_proc_codes_normalized =
     (if payment_proc_codes_normalized = [] \<and> db_claim_proc_codes_normalized = [] then 1
      else if payment_proc_codes_normalized \<noteq> [] \<and> db_claim_proc_codes_normalized = [] then 0
      else if payment_proc_codes_normalized = [] \<and> db_claim_proc_codes_normalized \<noteq> [] then 0
      else match_percentage
             (match_procedure_codes payment_proc_codes_normalized db_claim_proc_codes_normalized))"

definition subscriber_bonus :: "name_regex \<Rightarrow> SearchCriteria \<Rightarrow> cached_claim \<Rightarrow> int" where
  \<comment> \<open>lines 1083-1112\<close>
  "subscriber_bonus rx criteria claim =
     (if strip (subscriber_first_name criteria) \<noteq> [] \<and> strip (subscriber_last_name criteria) \<noteq> []
      then
        (case (cc_subscriber_first_name claim, cc_subscriber_last_name claim) of
           (Some cached_claim_sub_fn, Some cached_claim_sub_ln) \<Rightarrow>
             if strip cached_claim_sub_fn \<noteq> [] \<and> strip cached_claim_sub_ln \<noteq> [] then
               (let sub_name_score_value =
                      calculate_name_match_score_with_nicknames rx
                        (Some (strip cached_claim_sub_fn)) (Some (strip cached_claim_sub_ln))
                        (subscriber_first_name criteria) (subscriber_last_name criteria)
                in if sub_name_score_value = 30 then 15
                   else if sub_name_score_value \<ge> 15 then 8
                   else 0)
             else 0
         | _ \<Rightarrow> 0)
      else 0)"

definition cached_status_gate :: "cached_claim \<Rightarrow> bool" where
  \<comment> \<open>lines 962-981: true when the claim passes.\<close>
  "cached_status_gate claim =
     (let claim_status = or_str (cc_claim_status claim) (cc_ClaimStatus claim) in
      if claim_status \<in> {Some ''S'', Some ''H''} then True
      else if claim_status = Some ''R'' then
        (let v = (case cc_is_secondary claim of
                    Some v \<Rightarrow> v
                  | None \<Rightarrow> (case cc_IsSecondary claim of Some v \<Rightarrow> v | None \<Rightarrow> PBool False));
             is_secondary = (case v of PStr s \<Rightarrow> lower s = ''true'' | _ \<Rightarrow> flag_truthy v)
         in \<not> is_secondary)
      else False)"

definition cached_is_secondary :: "cached_claim \<Rightarrow> pyflag" where
  \<comment> \<open>line 1195\<close>
  "cached_is_secondary claim =
     (let v = (case cc_is_secondary claim of Some v \<Rightarrow> v | None \<Rightarrow> PBool False) in
      if flag_truthy v then v
      else if cc_plan_type claim = Some ''S'' then PBool True
      else PBool (cc_ClaimType claim = Some ''S''))"

definition cached_procs_list :: "cached_claim \<Rightarrow> claim_proc list" where
  \<comment> \<open>line 1032\<close>
  "cached_procs_list claim =
     (case cc_procedures claim of
        Some l \<Rightarrow> l
      | None \<Rightarrow> (case cc_claim_procs claim of Some l \<Rightarrow> l | None \<Rightarrow> []))"

definition cached_procedure_gate ::
  "date \<Rightarrow> date \<Rightarrow> int \<Rightarrow> claim_proc list \<Rightarrow> ProcedurePayment list \<Rightarrow> rat \<Rightarrow> bool option" where
  \<comment> \<open>lines 1051-1078: \<open>None\<close> is the \<open>continue\<close>, otherwise the value of
      \<open>alternate_benefit_override\<close>.\<close>
  "cached_procedure_gate claim_date_obj target_date_obj name_score cached_procs eob_procedures
       procedure_match_percentage =
     (if procedure_match_percentage \<le> 49 / 100 then
        (if has_strong_non_procedure_match_with_fees claim_date_obj target_date_obj name_score
              cached_procs eob_procedures
         then Some True
         else if has_procedure_count_match claim_date_obj target_date_obj name_score
                   cached_procs eob_procedures
         then Some True
         else None)
      else Some False)"

definition cached_match_source ::
  "date \<Rightarrow> date \<Rightarrow> int \<Rightarrow> claim_proc list \<Rightarrow> ProcedurePayment list \<Rightarrow> rat \<Rightarrow> bool \<Rightarrow> string"
  where
  \<comment> \<open>lines 1164-1185\<close>
  "cached_match_source claim_date_obj target_date_obj name_score cached_procs eob_procedures
       procedure_match_percentage alternate_benefit_override =
     (if alternate_benefit_override then
        (if procedure_match_percentage \<le> 49 / 100 then
           (if has_procedure_count_match claim_date_obj target_date_obj name_score
                 cached_procs eob_procedures
            then ''database_count_match''
            else ''database_alternate_benefit'')
         else ''database_alternate_benefit'')
      else ''database_strict'')"

definition cached_match_obj ::
  "cached_claim \<Rightarrow> string \<Rightarrow> int \<Rightarrow> string \<Rightarrow> cache_step" where
  \<comment> \<open>lines 1187-1206; \<open>int(None)\<close> raises \<open>TypeError\<close> when the claim has neither of the
      two keys of a number.\<close>
  "cached_match_obj claim claim_date_str final_calculated_score source =
     (case (or_num (cc_claim_num claim) (cc_ClaimNum claim),
            or_num (cc_pat_num claim) (cc_PatNum claim)) of
        (Some cn, Some pn) \<Rightarrow>
          Matched
            \<lparr>claim_num = cn,
             pat_num = Some pn,
             cm_date_of_service = claim_date_str,
             is_secondary = cached_is_secondary claim,
             has_secondary_plan = (case cc_has_secondary_plan claim of Some b \<Rightarrow> b | None \<Rightarrow> False),
             has_pending_secondary = False,
             match_score = Some final_calculated_score,
             match_source = source,
             claim_procs = cached_match_procs (cached_procs_list claim),
             is_supplemental = (case cc_is_supplemental claim of Some b \<Rightarrow> b | None \<Rightarrow> False),
             claim_status = (case cc_claim_status claim of
                               Some s \<Rightarrow> Some s
                             | None \<Rightarrow> cc_ClaimStatus claim)\<rparr>
      | _ \<Rightarrow> Raised TypeError)"

definition cached_claim_accept ::
  "name_regex \<Rightarrow> SearchCriteria \<Rightarrow> date \<Rightarrow> date \<Rightarrow> string list \<Rightarrow> cached_claim \<Rightarrow> string \<Rightarrow> int
     \<Rightarrow> cache_step" where
  \<comment> \<open>lines 1028-1207: the procedure check and the construction of the match, for a claim
      that passed the name check with \<open>name_score\<close>.\<close>
  "cached_claim_accept rx criteria claim_date_obj target_date_obj payment_proc_codes_normalized
       claim claim_date_str name_score =
     (let db_claim_proc_codes_normalized = db_codes_loop (cached_procs_list claim);
          procedure_match_percentage =
            cached_procedure_percentage payment_proc_codes_normalized db_claim_proc_codes_normalized;
          eob_procedures = procedures (payment_info criteria)
      in case cached_procedure_gate claim_date_obj target_date_obj name_score
                (cached_procs_list claim) eob_procedures procedure_match_percentage of
           None \<Rightarrow> Skipped ProcedureSkip
         | Some alternate_benefit_override \<Rightarrow>
             (let subscriber_bonus_points = subscriber_bonus rx criteria claim;
                  final_calculated_score = 30 + 10 + name_score + 30 + subscriber_bonus_points;
                  source = cached_match_source claim_date_obj target_date_obj name_score
                             (cached_procs_list claim) eob_procedures procedure_match_percentage
                             alternate_benefit_override
              in cached_match_obj claim claim_date_str final_calculated_score source))"

definition cached_claim_step ::
  "name_regex \<Rightarrow> SearchCriteria \<Rightarrow> date \<Rightarrow> string \<Rightarrow> string \<Rightarrow> string list \<Rightarrow> cached_claim
     \<Rightarrow> cache_step" where
  "cached_claim_step rx criteria target_date_obj criteria_name_fn_to_use criteria_name_ln_to_use
       payment_proc_codes_normalized claim =
     (case or_str (or_str (cc_date_of_service claim) (cc_claim_date claim)) (cc_DateService claim) of
        None \<Rightarrow> Skipped MissingData
      | Some claim_date_str \<Rightarrow>
          if claim_date_str = [] then Skipped MissingData
          else
            (case strptime claim_date_str of
               None \<Rightarrow> Skipped MissingData
             | Some claim_date_obj \<Rightarrow>
                 if claim_date_obj \<noteq> target_date_obj then Skipped DateSkip
                 else if \<not> cached_status_gate claim then Skipped StatusSkip
                 else
                   let patient_fn_raw = or_str (cc_patient_first_name claim) (cc_pat_fn claim);
                       patient_ln_raw = or_str (cc_patient_last_name claim) (cc_pat_ln claim)
                   in if \<not> str_truthy patient_fn_raw \<or> \<not> str_truthy patient_ln_raw
                      then Skipped MissingData
                      else
                        (case name_gate rx patient_fn_raw patient_ln_raw
                                criteria_name_fn_to_use criteria_name_ln_to_use of
                           None \<Rightarrow> Skipped NameSkip
                         | Some name_score \<Rightarrow>
                             cached_claim_accept rx criteria claim_date_obj target_date_obj
                               payment_proc_codes_normalized claim claim_date_str name_score)))"

fun cached_loop :: "(cached_claim \<Rightarrow> cache_step) \<Rightarrow> cached_claim list \<Rightarrow> error + ClaimMatch list"
  where
  "cached_loop step [] = Inr []"
| "cached_loop step (claim # db_claims) =
     (case step claim of
        Skipped reason \<Rightarrow> cached_loop step db_claims
      | Raised e \<Rightarrow> Inl e
      | Matched match_obj \<Rightarrow>
          (case cached_loop step db_claims of
             Inl e \<Rightarrow> Inl e
           | Inr potential_matches \<Rightarrow> Inr (match_obj # potential_matches)))"

definition cached_potential_matches ::
  "name_regex \<Rightarrow> SearchCriteria \<Rightarrow> date \<Rightarrow> string \<Rightarrow> string \<Rightarrow> cached_claim list
     \<Rightarrow> error + ClaimMatch list" where
  \<comment> \<open>lines 924-1207: the list \<open>potential_matches\<close> after the loop.\<close>
  "cached_potential_matches rx criteria target_date_obj criteria_name_fn_to_use
       criteria_name_ln_to_use db_claims =
     (let payment_proc_codes_normalized =
            map (\<lambda>p. normalize_procedure_code (proc_code p))
              (filter (\<lambda>p. proc_code p \<noteq> []) (procedures (payment_info criteria)))
      in cached_loop
           (cached_claim_step rx criteria target_date_obj criteria_name_fn_to_use
              criteria_name_ln_to_use payment_proc_codes_normalized)
           db_claims)"

definition cached_prioritize :: "ClaimMatch list \<Rightarrow> ClaimMatch list" where
  \<comment> \<open>lines 1216-1236\<close>
  "cached_prioritize potential_matches =
     (let sorted_potential_matches = sort_by_score score_of potential_matches;
          db_primary_matches =
            filter (\<lambda>m. \<not> flag_truthy (is_secondary m)) sorted_potential_matches;
          db_secondary_matches =
            filter (\<lambda>m. flag_truthy (is_secondary m)) sorted_potential_matches
      in prioritize db_primary_matches db_secondary_matches)"

definition criteria_name_to_use :: "SearchCriteria \<Rightarrow> (string \<times> string) option" where
  \<comment> \<open>lines 901-920: the patient's name, the subscriber's when the patient's is blank.\<close>
  "criteria_name_to_use criteria =
     (if strip (patient_first_name criteria) \<noteq> [] \<and> strip (patient_last_name criteria) \<noteq> []
      then Some (patient_first_name criteria, patient_last_name criteria)
      else if strip (subscriber_first_name criteria) \<noteq> []
              \<and> strip (subscriber_last_name criteria) \<noteq> []
      then Some (subscriber_first_name criteria, subscriber_last_name criteria)
      else None)"

definition filter_cached_claims ::
  "name_regex \<Rightarrow> SearchCriteria \<Rightarrow> cached_claim list option \<Rightarrow> error + ClaimMatch list" where
  \<comment> \<open>the third argument is the entry \<open>claims\<close> of \<open>claims_data\<close>, \<open>None\<close> when it is
      missing.\<close>
  "filter_cached_claims rx criteria claims_data =
     (let db_claims = (case claims_data of None \<Rightarrow> [] | Some l \<Rightarrow> l) in
      if db_claims = [] then Inr []
      else
        (case strptime (date_of_service criteria) of
           None \<Rightarrow> Inr []
         | Some target_date_obj \<Rightarrow>
             (case criteria_name_to_use criteria of
                None \<Rightarrow> Inr []
              | Some (criteria_name_fn_to_use, criteria_name_ln_to_use) \<Rightarrow>
                  (case cached_potential_matches rx criteria target_date_obj
                          criteria_name_fn_to_use criteria_name_ln_to_use db_claims of
                     Inl e \<Rightarrow> Inl e
                   | Inr potential_matches \<Rightarrow> Inr (cached_prioritize potential_matches)))))"

section \<open>Path B: remote search\<close>

text \<open>
  The remote claim-data accessor \<open>make_request\<close> is injected by the caller. It is a
  parameter of the model, one function for each endpoint the matcher queries; \<open>Inl\<close> is
  an exception raised by the accessor. Entity resolution (\<open>_get_entity_data\<close>, lines
  723-873) catches every exception and returns a dictionary; no property below depends
  on how it finds the entity, and its result is a parameter as well: \<open>None\<close> is the empty
  dictionary.
\<close>

record inssub =
  InsSubNum :: "int option"

record remote =
  get_patient_data :: "string \<Rightarrow> string \<Rightarrow> (patient_details \<times> api_claim list) option"
  get_subscriber_data :: "string \<Rightarrow> string \<Rightarrow> (patient_details \<times> inssub option) option"
  req_claimprocs :: "int \<Rightarrow> error + claim_proc list option"
  req_claims_by_inssub :: "int option \<Rightarrow> error + api_claim list option"
  req_patient :: "int \<Rightarrow> error + patient_details option"
  req_patplans :: "int \<Rightarrow> error + nat option"

record candidate =
  cand_score :: int
  api_claim_raw :: api_claim
  claim_procs_raw :: "claim_proc list"
  source_patient_details :: patient_details
  used_alternate_benefit :: bool
  override_type :: string

definition opt_str :: "string option \<Rightarrow> string" where
  \<comment> \<open>\<open>d.get(key, '')\<close>\<close>
  "opt_str x = (case x of None \<Rightarrow> [] | Some s \<Rightarrow> s)"

definition prefilter :: "date \<Rightarrow> api_claim \<Rightarrow> bool" where
  \<comment> \<open>lines 1318-1324 and 1384-1390: true when the claim is evaluated.\<close>
  "prefilter target_date api_claim =
     (case strptime (opt_str (ac_DateService api_claim)) of
        None \<Rightarrow> False
      | Some d \<Rightarrow> d = target_date \<and> ac_ClaimStatus api_claim \<in> {Some ''S'', Some ''H''})"

definition scored_candidate ::
  "name_regex \<Rightarrow> SearchCriteria \<Rightarrow> api_claim \<Rightarrow> claim_proc list \<Rightarrow> patient_details
     \<Rightarrow> error + candidate option" where
  \<comment> \<open>lines 1332-1350 and 1413-1431: the candidate, when the score is positive; an
      exception of the scorer is not caught in either stage.\<close>
  "scored_candidate rx criteria api_claim claim_procs_api owner =
     (case score_api_claim_candidate rx api_claim claim_procs_api criteria owner of
        Inl e \<Rightarrow> Inl e
      | Inr (sc, used, ot) \<Rightarrow>
          if sc > 0 then
            Inr (Some \<lparr>cand_score = sc, api_claim_raw = api_claim,
                       claim_procs_raw = claim_procs_api, source_patient_details = owner,
                       used_alternate_benefit = used, override_type = ot\<rparr>)
          else Inr None)"

fun stage1_loop ::
  "name_regex \<Rightarrow> remote \<Rightarrow> SearchCriteria \<Rightarrow> date \<Rightarrow> patient_details \<Rightarrow> api_claim list
     \<Rightarrow> candidate list \<times> int set \<Rightarrow> error + candidate list \<times> int set" where
  "stage1_loop rx rem criteria target_date patient [] st = Inr st"
| "stage1_loop rx rem criteria target_date patient (api_claim # rest)
       (all_scored_candidates, processed_claim_nums) =
     (case ac_ClaimNum api_claim of
        None \<Rightarrow> stage1_loop rx rem criteria target_date patient rest
                  (all_scored_candidates, processed_claim_nums)
      | Some cnum \<Rightarrow>
          if cnum = 0 \<or> cnum \<in> processed_claim_nums \<or> \<not> prefilter target_date api_claim
          then stage1_loop rx rem criteria target_date patient rest
                 (all_scored_candidates, processed_claim_nums)
          else
            (case req_claimprocs rem cnum of
               Inl e \<Rightarrow> Inl e
             | Inr response \<Rightarrow>
                 (let claim_procs_api = (case response of None \<Rightarrow> [] | Some l \<Rightarrow> l) in
                  case scored_candidate rx criteria api_claim claim_procs_api patient of
                    Inl e \<Rightarrow> Inl e
                  | Inr (Some cand) \<Rightarrow>
                      stage1_loop rx rem criteria target_date patient rest
                        (all_scored_candidates @ [cand], insert cnum processed_claim_nums)
                  | Inr None \<Rightarrow>
                      stage1_loop rx rem criteria target_date patient rest
                        (all_scored_candidates, processed_claim_nums))))"

fun stage2_loop ::
  "name_regex \<Rightarrow> remote \<Rightarrow> SearchCriteria \<Rightarrow> date \<Rightarrow> api_claim list
     \<Rightarrow> candidate list \<times> int set \<Rightarrow> error + candidate list \<times> int set" where
  "stage2_loop rx rem criteria target_date [] st = Inr st"
| "stage2_loop rx rem criteria target_date (api_claim # rest)
       (all_scored_candidates, processed_claim_nums) =
     (case ac_ClaimNum api_claim of
        None \<Rightarrow> stage2_loop rx rem criteria target_date rest
                  (all_scored_candidates, processed_claim_nums)
      | Some cnum \<Rightarrow>
          if cnum = 0 \<or> cnum \<in> processed_claim_nums \<or> \<not> prefilter target_date api_claim
             \<or> \<not> num_truthy (ac_PatNum api_claim)
          then stage2_loop rx rem criteria target_date rest
                 (all_scored_candidates, processed_claim_nums)
          else
            (case req_patient rem (case ac_PatNum api_claim of Some n \<Rightarrow> n | None \<Rightarrow> 0) of
               Inl e \<Rightarrow> Inl e
             | Inr owner_patient_api_response \<Rightarrow>
                 (case owner_patient_api_response of
                    None \<Rightarrow> stage2_loop rx rem criteria target_date rest
                              (all_scored_candidates, processed_claim_nums)
                  | Some owner \<Rightarrow>
                      if \<not> num_truthy (pd_PatNum owner)
                      then stage2_loop rx rem criteria target_date rest
                             (all_scored_candidates, processed_claim_nums)
                      else
                        (case req_claimprocs rem cnum of
                           Inl e \<Rightarrow> Inl e
                         | Inr response \<Rightarrow>
                             (let claim_procs_api = (case response of None \<Rightarrow> [] | Some l \<Rightarrow> l) in
                              case scored_candidate rx criteria api_claim claim_procs_api owner of
                                Inl e \<Rightarrow> Inl e
                              | Inr (Some cand) \<Rightarrow>
                                  stage2_loop rx rem criteria target_date rest
                                    (all_scored_candidates @ [cand],
                                     insert cnum processed_claim_nums)
                              | Inr None \<Rightarrow>
                                  stage2_loop rx rem criteria target_date rest
                                    (all_scored_candidates, processed_claim_nums))))))"

definition check_secondary_insurance :: "remote \<Rightarrow> api_claim \<Rightarrow> bool" where
  \<comment> \<open>lines 697-721; an exception of the accessor is caught and keeps the first answer.\<close>
  "check_secondary_insurance rem claim =
     (let has_secondary_plan_initial =
            ((case ac_InsSubNum2 claim of None \<Rightarrow> 0 | Some n \<Rightarrow> n) > 0
             \<or> (case ac_PlanNum2 claim of None \<Rightarrow> 0 | Some n \<Rightarrow> n) > 0)
      in if has_secondary_plan_initial then
           (case ac_PatNum claim of
              None \<Rightarrow> has_secondary_plan_initial
            | Some pnum \<Rightarrow>
                if pnum = 0 then has_secondary_plan_initial
                else
                  (case req_patplans rem pnum of
                     Inr (Some n) \<Rightarrow> (if n \<le> 1 then False else has_secondary_plan_initial)
                   | _ \<Rightarrow> has_secondary_plan_initial))
         else has_secondary_plan_initial)"

definition api_match_source :: "bool \<Rightarrow> string \<Rightarrow> string" where
  \<comment> \<open>lines 1510-1518\<close>
  "api_match_source used ot =
     (if used then
        (if ot = ''count_match'' then ''api_count_match''
         else if ot = ''fee_match'' then ''api_alternate_benefit''
         else ''api_alternate_benefit'')
      else ''api_strict_scored'')"

definition api_match_obj :: "remote \<Rightarrow> candidate \<Rightarrow> error + ClaimMatch" where
  \<comment> \<open>lines 1459-1539; \<open>raw_claim['PatNum']\<close> and its like raise \<open>KeyError\<close> on a claim
      without the key.\<close>
  "api_match_obj rem cand_dict =
     (let raw_claim = api_claim_raw cand_dict; raw_procs = claim_procs_raw cand_dict in
      case (ac_ClaimNum raw_claim, ac_DateService raw_claim, ac_ClaimStatus raw_claim,
            ac_PatNum raw_claim) of
        (Some cn, Some ds, Some st, Some pn) \<Rightarrow>
          Inr \<lparr>claim_num = cn,
               pat_num = Some pn,
               cm_date_of_service = ds,
               is_secondary = PBool (ac_ClaimType raw_claim = Some ''S''),
               has_secondary_plan = check_secondary_insurance rem raw_claim,
               has_pending_secondary = False,
               match_score = Some (cand_score cand_dict),
               match_source =
                 api_match_source (used_alternate_benefit cand_dict) (override_type cand_dict),
               claim_procs =
                 map (\<lambda>proc_raw.
                        \<lparr>mp_CodeSent = map_option normalize_procedure_code (cp_CodeSent proc_raw),
                         mp_FeeBilled = (case or_num (num_get (cp_FeeBilled proc_raw)) (Some 0) of
                                           Some v \<Rightarrow> v | None \<Rightarrow> 0)\<rparr>)
                   raw_procs,
               is_supplemental = False,
               claim_status = ac_ClaimStatus raw_claim\<rparr>
      | _ \<Rightarrow> Inl KeyError)"

fun api_match_objs :: "remote \<Rightarrow> candidate list \<Rightarrow> error + ClaimMatch list" where
  \<comment> \<open>the loop of lines 1459-1544 over the sorted candidates.\<close>
  "api_match_objs rem [] = Inr []"
| "api_match_objs rem (cand_dict # rest) =
     (case api_match_obj rem cand_dict of
        Inl e \<Rightarrow> Inl e
      | Inr match_obj \<Rightarrow>
          (case api_match_objs rem rest of
             Inl e \<Rightarrow> Inl e
           | Inr objs \<Rightarrow> Inr (match_obj # objs)))"

definition MIN_ACCEPTABLE_SCORE :: int where
  "MIN_ACCEPTABLE_SCORE = 89"

definition collect_candidates ::
  "name_regex \<Rightarrow> remote \<Rightarrow> SearchCriteria \<Rightarrow> date \<Rightarrow> error + candidate list" where
  \<comment> \<open>stages 1 and 2, lines 1289-1435: the list \<open>all_scored_candidates\<close>.\<close>
  "collect_candidates rx rem criteria target_date =
     (let patient_data =
            (if strip (patient_first_name criteria) \<noteq> [] \<and> strip (patient_last_name criteria) \<noteq> []
             then get_patient_data rem (patient_last_name criteria) (patient_first_name criteria)
             else None);
          stage1 =
            (case patient_data of
               Some (patient, claims) \<Rightarrow>
                 if claims \<noteq> [] then stage1_loop rx rem criteria target_date patient claims ([], {})
                 else Inr ([], {})
             | None \<Rightarrow> Inr ([], {}))
      in case stage1 of
           Inl e \<Rightarrow> Inl e
         | Inr st \<Rightarrow>
             (let subscriber_data =
                    (if strip (subscriber_first_name criteria) \<noteq> []
                        \<and> strip (subscriber_last_name criteria) \<noteq> []
                     then get_subscriber_data rem (subscriber_last_name criteria)
                            (subscriber_first_name criteria)
                     else None)
              in case subscriber_data of
                   Some (subscriber, Some sub) \<Rightarrow>
                     (case req_claims_by_inssub rem (InsSubNum sub) of
                        Inl e \<Rightarrow> Inl e
                      | Inr (Some claims_for_sub) \<Rightarrow>
                          (case stage2_loop rx rem criteria target_date claims_for_sub st of
                             Inl e \<Rightarrow> Inl e
                           | Inr st' \<Rightarrow> Inr (fst st'))
                      | Inr None \<Rightarrow> Inr (fst st))
                 | _ \<Rightarrow> Inr (fst st)))"

definition find_matching_claims ::
  "name_regex \<Rightarrow> remote \<Rightarrow> SearchCriteria \<Rightarrow> error + ClaimMatch list" where
  "find_matching_claims rx rem criteria =
     (case strptime (date_of_service criteria) of
        None \<Rightarrow> Inr []
      | Some target_date \<Rightarrow>
          (case collect_candidates rx rem criteria target_date of
             Inl e \<Rightarrow> Inl e
           | Inr all_scored_candidates \<Rightarrow>
               (let high_confidence_candidates =
                      filter (\<lambda>cand. cand_score cand \<ge> MIN_ACCEPTABLE_SCORE) all_scored_candidates
                in if high_confidence_candidates = [] then Inr []
                   else
                     (let sorted_candidates = sort_by_score cand_score high_confidence_candidates
                      in case api_match_objs rem sorted_candidates of
                           Inl e \<Rightarrow> Inl e
                         | Inr objs \<Rightarrow>
                             (let final_match_objects_primary =
                                    filter (\<lambda>m. \<not> flag_truthy (is_secondary m)) objs;
                                  final_match_objects_secondary =
                                    filter (\<lambda>m. flag_truthy (is_secondary m)) objs
                              in Inr (prioritize final_match_objects_primary
                                        final_match_objects_secondary))))))"

section \<open>Path C: supplemental fallback\<close>

text \<open>
  \<open>find_matching_claims_api_fallback\<close>, lines 1572-1741. The body runs under one
  \<open>try\<close> whose handler returns the empty list, so \<open>fallback_body\<close> returns a sum and
  the function maps every error to the empty list.
\<close>

fun matched_api_procedures :: "string set \<Rightarrow> claim_proc list \<Rightarrow> match_proc list" where
  \<comment> \<open>lines 1650-1672\<close>
  "matched_api_procedures eob_proc_codes_normalized [] = []"
| "matched_api_procedures eob_proc_codes_normalized (api_proc # rest) =
     (case map_option normalize_procedure_code (cp_CodeSent api_proc) of
        Some normalized_api_proc_code \<Rightarrow>
          if normalized_api_proc_code \<noteq> [] \<and> normalized_api_proc_code \<in> eob_proc_codes_normalized
          then \<lparr>mp_CodeSent = cp_CodeSent api_proc,
                mp_FeeBilled = (case or_num (num_get (cp_FeeBilled api_proc)) (Some 0) of
                                  Some v \<Rightarrow> v | None \<Rightarrow> 0)\<rparr>
                 # matched_api_procedures eob_proc_codes_normalized rest
          else matched_api_procedures eob_proc_codes_normalized rest
      | None \<Rightarrow> matched_api_procedures eob_proc_codes_normalized rest)"

fun supplemental_loop ::
  "remote \<Rightarrow> date \<Rightarrow> string set \<Rightarrow> int option \<Rightarrow> api_claim list \<Rightarrow> error + ClaimMatch list" where
  \<comment> \<open>lines 1633-1728\<close>
  "supplemental_loop rem target_date_obj eob_proc_codes_normalized pat [] = Inr []"
| "supplemental_loop rem target_date_obj eob_proc_codes_normalized pat (api_claim # rest) =
     (case strptime (opt_str (ac_DateService api_claim)) of
        None \<Rightarrow> supplemental_loop rem target_date_obj eob_proc_codes_normalized pat rest
      | Some api_claim_date_obj \<Rightarrow>
          if api_claim_date_obj \<noteq> target_date_obj
          then supplemental_loop rem target_date_obj eob_proc_codes_normalized pat rest
          else
            (case ac_ClaimNum api_claim of
               None \<Rightarrow> Inl KeyError
             | Some cn \<Rightarrow>
                 (case req_claimprocs rem cn of
                    Inl e \<Rightarrow> Inl e
                  | Inr response \<Rightarrow>
                      (let api_claim_procs_full = (case response of None \<Rightarrow> [] | Some l \<Rightarrow> l);
                           matched_api_procedures_for_claimmatch =
                             matched_api_procedures eob_proc_codes_normalized api_claim_procs_full
                       in if api_claim_procs_full = [] \<or> matched_api_procedures_for_claimmatch = []
                          then supplemental_loop rem target_date_obj eob_proc_codes_normalized pat rest
                          else
                            (case supplemental_loop rem target_date_obj eob_proc_codes_normalized
                                    pat rest of
                               Inl e \<Rightarrow> Inl e
                             | Inr supplemental_matches \<Rightarrow>
                                 Inr (\<lparr>claim_num = cn,
                                       pat_num = pat,
                                       cm_date_of_service = opt_str (ac_DateService api_claim),
                                       is_secondary = PBool (ac_ClaimType api_claim = Some ''S''),
                                       has_secondary_plan =
                                         ((case ac_InsSubNum2 api_claim of None \<Rightarrow> 0 | Some n \<Rightarrow> n) > 0
                                          \<or> (case ac_PlanNum2 api_claim of None \<Rightarrow> 0 | Some n \<Rightarrow> n) > 0),
                                       has_pending_secondary = False,
                                       match_score = None,
                                       match_source = ''api_supplemental'',
                                       claim_procs = matched_api_procedures_for_claimmatch,
                                       is_supplemental = True,
                                       claim_status = ac_ClaimStatus api_claim\<rparr>
                                      # supplemental_matches))))))"

definition fallback_body :: "remote \<Rightarrow> SearchCriteria \<Rightarrow> error + ClaimMatch list" where
  "fallback_body rem criteria =
     (case (if patient_first_name criteria = [] then Inr []
            else (case split_on isspace [] (patient_first_name criteria) of
                    [] \<Rightarrow> Inl IndexError
                  | first # others \<Rightarrow> Inr first)) of
        Inl e \<Rightarrow> Inl e
      | Inr api_fallback_patient_first_name \<Rightarrow>
          (let api_fallback_patient_last_name = patient_last_name criteria in
           if api_fallback_patient_first_name = [] \<or> api_fallback_patient_last_name = [] then Inr []
           else
             (case get_patient_data rem api_fallback_patient_last_name
                     api_fallback_patient_first_name of
                None \<Rightarrow> Inr []
              | Some (patient, all_api_claims_for_patient) \<Rightarrow>
                  if all_api_claims_for_patient = [] then Inr []
                  else
                    (let pat = pd_PatNum patient;
                         received_or_sent_api_claims =
                           filter (\<lambda>c. ac_ClaimStatus c \<in> {Some ''R'', Some ''S''})
                             all_api_claims_for_patient
                     in if received_or_sent_api_claims = [] then Inr []
                        else
                          (case strptime (date_of_service criteria) of
                             None \<Rightarrow> Inl ValueError
                           | Some target_date_obj \<Rightarrow>
                               (let eob_proc_codes_normalized =
                                      set (map (\<lambda>p. normalize_procedure_code (proc_code p))
                                             (filter (\<lambda>p. proc_code p \<noteq> [])
                                                (procedures (payment_info criteria))))
                                in supplemental_loop rem target_date_obj eob_proc_codes_normalized
                                     pat received_or_sent_api_claims))))))"

definition find_matching_claims_api_fallback ::
  "remote \<Rightarrow> SearchCriteria \<Rightarrow> bool \<Rightarrow> ClaimMatch list" where
  "find_matching_claims_api_fallback rem criteria skip_api_fallback =
     (if skip_api_fallback then []
      else (case fallback_body rem criteria of Inl e \<Rightarrow> [] | Inr supplemental_matches \<Rightarrow>
              supplemental_matches))"

section \<open>The fee-array rule as the specification words it\<close>

text \<open>
  The words of the specification for the fee-array override, to be compared with
  \<open>has_strong_non_procedure_match_with_fees\<close>: the strictly positive billed fees of the
  claim's lines and the strictly positive submitted amounts of the criteria, both sorted
  ascending and paired by position; a pair is close when it differs by at most one dollar
  or by at most 2 percent of the larger value. The amounts are the numbers of the
  documents and the arithmetic is exact.
\<close>

definition billed_fee :: "claim_proc \<Rightarrow> rat" where
  \<comment> \<open>the billed fee of a line: under \<open>fee_billed\<close>, else under \<open>FeeBilled\<close>, else none\<close>
  "billed_fee proc =
     (case or_num (or_num (cp_fee_billed proc) (cp_FeeBilled proc)) (Some 0) of
        Some v \<Rightarrow> v
      | None \<Rightarrow> 0)"

definition positive_billed_fees :: "claim_proc list \<Rightarrow> rat list" where
  "positive_billed_fees claim_procedures = filter (\<lambda>fee. 0 < fee) (map billed_fee claim_procedures)"

definition positive_submitted_amounts :: "ProcedurePayment list \<Rightarrow> rat list" where
  "positive_submitted_amounts eob_procedures =
     filter (\<lambda>amt. 0 < amt) (map submitted_amt eob_procedures)"

definition fee_pair_close :: "rat \<times> rat \<Rightarrow> bool" where
  "fee_pair_close pair =
     (case pair of (pms_fee, eob_fee) \<Rightarrow>
        \<bar>pms_fee - eob_fee\<bar> \<le> 1 \<or> \<bar>pms_fee - eob_fee\<bar> \<le> 2 / 100 * max pms_fee eob_fee)"

definition spec_fee_array_rule :: "int \<Rightarrow> claim_proc list \<Rightarrow> ProcedurePayment list \<Rightarrow> bool" where
  "spec_fee_array_rule name_score claim_procedures eob_procedures =
     (let pms = positive_billed_fees claim_procedures;
          eob = positive_submitted_amounts eob_procedures
      in 25 \<le> name_score \<and> pms \<noteq> [] \<and> eob \<noteq> [] \<and> length pms = length eob
         \<and> 8 / 10 \<le> (of_nat (length (filter fee_pair_close (zip (sort pms) (sort eob)))) :: rat)
                      / of_nat (length pms))"

section \<open>Evaluation rules\<close>

lemmas str_simps =
  startswith_def endswith_def isdigit_def is_digit_def isspace_def strip_def lower_def

lemmas code_simps = normalize_procedure_code_def str_simps

lemma lower_char_letters:
  "map lower_char ''ABCDEFGHIJKLMNOPQRSTUVWXYZ'' = ''abcdefghijklmnopqrstuvwxyz''"
  by simp

lemma lower_other_characters: "lower ''az 09 @[`{ -. Smith'' = ''az 09 @[`{ -. smith''"
  by (simp add: lower_def)

section \<open>Procedure-code normalization\<close>

lemma normalize_bare_digits: "normalize_procedure_code ''00120'' = ''D00120''"
  by (simp add: code_simps)

lemma normalize_padded: "normalize_procedure_code ''D00120'' = ''D0120''"
  by (simp add: code_simps)

text \<open>
  C4. Normalization is claimed to be idempotent. A code with the letter and more than
  four digits loses its leading zeros, but a code of bare digits only receives the
  letter: the five-digit code \<open>00120\<close> becomes \<open>D00120\<close>, which a second normalization
  turns into \<open>D0120\<close>.
\<close>

theorem normalize_procedure_code_not_idempotent:
  "normalize_procedure_code (normalize_procedure_code ''00120'')
     \<noteq> normalize_procedure_code ''00120''"
  by (simp add: normalize_bare_digits normalize_padded)

section \<open>Procedure match percentage\<close>

lemma hd_of_singleton_set: "p \<noteq> [] \<Longrightarrow> set p = {a} \<Longrightarrow> hd p = a"
  by (cases p) auto

text \<open>
  C3. The match percentage is 0 when either list is empty; it is 1 when each list has
  exactly one distinct code and the two codes normalize to the same code; otherwise it
  is the number of normalized codes common to both lists divided by the number of
  normalized payment codes.
\<close>

theorem match_percentage_cases:
  "match_percentage (match_procedure_codes p d) =
     (if p = [] \<or> d = [] then 0
      else if \<exists>a b. set p = {a} \<and> set d = {b}
                 \<and> normalize_procedure_code a = normalize_procedure_code b then 1
      else of_nat (card (normalize_procedure_code ` set p \<inter> normalize_procedure_code ` set d))
             / of_nat (card (normalize_procedure_code ` set p)))"
proof (cases "p = [] \<or> d = []")
  case True
  then show ?thesis by (auto simp: match_procedure_codes_def)
next
  case False
  then have ne: "p \<noteq> []" "d \<noteq> []" by auto
  have eq: "(card (set p) = 1 \<and> card (set d) = 1
              \<and> normalize_procedure_code (hd p) = normalize_procedure_code (hd d))
            \<longleftrightarrow> (\<exists>a b. set p = {a} \<and> set d = {b}
                 \<and> normalize_procedure_code a = normalize_procedure_code b)"
    using ne by (auto simp: card_1_singleton_iff hd_of_singleton_set)
  show ?thesis
  proof (cases "\<exists>a b. set p = {a} \<and> set d = {b}
                 \<and> normalize_procedure_code a = normalize_procedure_code b")
    case True
    with eq have "card (set p) = 1 \<and> card (set d) = 1
              \<and> normalize_procedure_code (hd p) = normalize_procedure_code (hd d)" by blast
    then have "match_percentage (match_procedure_codes p d) = 1"
      using ne by (simp add: match_procedure_codes_def)
    with True ne show ?thesis by (simp only: if_True if_False simp_thms)
  next
    case F: False
    with eq have "\<not> (card (set p) = 1 \<and> card (set d) = 1
              \<and> normalize_procedure_code (hd p) = normalize_procedure_code (hd d))" by blast
    then have "match_percentage (match_procedure_codes p d) =
       of_nat (card (normalize_procedure_code ` set p \<inter> normalize_procedure_code ` set d))
             / of_nat (card (normalize_procedure_code ` set p))"
      using ne unfolding match_procedure_codes_def Let_def by auto
    with F ne show ?thesis by (simp only: if_True if_False simp_thms)
  qed
qed

theorem match_percentage_cases_witness:
  "match_percentage (match_procedure_codes [''D8080'', ''D8080'', ''D8080''] [''8080'', ''8080'']) = 1
   \<and> match_percentage (match_procedure_codes [] [''D0120'']) = 0
   \<and> match_percentage
        (match_procedure_codes [''D0120'', ''D0274'', ''D1110''] [''D0120'', ''D9999'']) = 1 / 3"
proof -
  have single: "\<exists>a b. set [''D8080'', ''D8080'', ''D8080''] = {a} \<and> set [''8080'', ''8080''] = {b}
                  \<and> normalize_procedure_code a = normalize_procedure_code b"
    by (rule exI[of _ "''D8080''"], rule exI[of _ "''8080''"]) (simp add: code_simps)
  have mixed: "\<not> (\<exists>a b. set [''D0120'', ''D0274'', ''D1110''] = {a} \<and> set [''D0120'', ''D9999''] = {b}
                  \<and> normalize_procedure_code a = normalize_procedure_code b)"
    by auto
  have a: "match_percentage
             (match_procedure_codes [''D8080'', ''D8080'', ''D8080''] [''8080'', ''8080'']) = 1"
    using single
      match_percentage_cases [of "[''D8080'', ''D8080'', ''D8080'']" "[''8080'', ''8080'']"]
    by simp
  have b: "match_percentage (match_procedure_codes [] [''D0120'']) = 0"
    using match_percentage_cases [of "[]" "[''D0120'']"] by simp
  have c: "match_percentage
             (match_procedure_codes [''D0120'', ''D0274'', ''D1110''] [''D0120'', ''D9999'']) = 1 / 3"
    using mixed
      match_percentage_cases [of "[''D0120'', ''D0274'', ''D1110'']" "[''D0120'', ''D9999'']"]
    by (simp add: code_simps)
  from a b c show ?thesis by blast
qed

section \<open>Name score\<close>

lemma if_mem: "x \<in> S \<Longrightarrow> y \<in> S \<Longrightarrow> (if c then x else y) \<in> S"
  by simp

lemma similarity_score_range: "score (calculate_enhanced_similarity a b) \<in> {0..15}"
  unfolding calculate_enhanced_similarity_def Let_def if_distrib [of score]
  by (intro if_mem) simp_all

lemma ln_score_component_range: "ln_score_component rx q c \<in> {0..15}"
proof -
  have s: "score (calculate_enhanced_similarity q c) \<in> {0..15}"
    by (rule similarity_score_range)
  show ?thesis
  proof (cases "part_search rx q c")
    case RxMatch
    then show ?thesis by (simp add: ln_score_component_def)
  next
    case RxError
    then show ?thesis by (simp add: ln_score_component_def)
  next
    case RxNoMatch
    show ?thesis
    proof (cases "if length (name_tokens q) > 1 then ln_parts_loop rx (name_tokens q) c else RxNoMatch")
      case RxMatch
      with \<open>part_search rx q c = RxNoMatch\<close> show ?thesis
        by (simp add: ln_score_component_def Let_def)
    next
      case RxError
      with \<open>part_search rx q c = RxNoMatch\<close> show ?thesis
        by (simp add: ln_score_component_def Let_def)
    next
      case inner: RxNoMatch
      have "ln_score_component rx q c =
              (if score (calculate_enhanced_similarity q c) > 0
               then score (calculate_enhanced_similarity q c) else 0)"
        using \<open>part_search rx q c = RxNoMatch\<close> inner
        by (simp only: ln_score_component_def Let_def rx_result.case)
      with s show ?thesis by auto
    qed
  qed
qed


lemma name_score_range:
  "calculate_name_match_score_with_nicknames rx pfn pln cfn cln \<in> {0..30}"
proof -
  have l: "ln_score_component rx (lower (strip cln)) (opt_clean pln) \<in> {0..15}"
    by (rule ln_score_component_range)
  have "15 + (if lower (strip cln) \<noteq> [] then
                (if opt_clean pln = [] then 0
                 else ln_score_component rx (lower (strip cln)) (opt_clean pln))
              else (if (15::int) = 15 then 15 else 0)) \<in> {0..30}"
    using l by auto
  then show ?thesis
    unfolding calculate_name_match_score_with_nicknames_def Let_def
    by (intro if_mem) simp_all
qed

lemma name_gate_range:
  assumes "name_gate rx pfn pln cfn cln = Some ns"
  shows "20 \<le> ns \<and> ns \<le> 30"
proof -
  have a: "calculate_name_match_score_with_nicknames rx pfn pln cfn cln \<in> {0..30}"
    and b: "calculate_name_match_score_with_nicknames rx pfn pln cln cfn \<in> {0..30}"
    by (rule name_score_range)+
  from assms a b show ?thesis
    unfolding name_gate_def Let_def by (auto split: if_splits)
qed

lemma name_gate_cases:
  "name_gate rx pfn pln cfn cln =
     (if calculate_name_match_score_with_nicknames rx pfn pln cfn cln \<ge> 20
      then Some (calculate_name_match_score_with_nicknames rx pfn pln cfn cln)
      else if calculate_name_match_score_with_nicknames rx pfn pln cln cfn \<ge> 20
      then Some (calculate_name_match_score_with_nicknames rx pfn pln cln cfn)
      else None)"
  unfolding name_gate_def Let_def by auto

section \<open>Scores of the remote search\<close>

lemma verdict_passed_score:
  assumes "api_candidate_verdict rx c procs crit owner = Inr (Passed s u t)"
  shows "\<exists>ns. name_gate rx (pd_FName owner) (pd_LName owner)
                (patient_first_name crit) (patient_last_name crit) = Some ns
              \<and> s = 30 + 10 + ns + 30"
  using assms unfolding api_candidate_verdict_def
  by (auto split: option.splits if_splits prod.splits sum.splits)

lemma score_positive_iff_passed:
  "score_api_claim_candidate rx c procs crit owner = Inr (s, u, t) \<Longrightarrow> s \<noteq> 0 \<Longrightarrow>
     api_candidate_verdict rx c procs crit owner = Inr (Passed s u t)"
  unfolding score_api_claim_candidate_def by (auto split: sum.splits verdict.splits)

lemma prioritize_score:
  assumes "m \<in> set (prioritize P S)"
  shows "\<exists>m' \<in> set P \<union> set S. match_score m = match_score m'"
  using assms unfolding prioritize_def by (auto split: if_splits)

lemma api_match_obj_score:
  "api_match_obj rem cand = Inr m \<Longrightarrow> match_score m = Some (cand_score cand)"
  unfolding api_match_obj_def Let_def by (auto split: option.splits prod.splits)

lemma api_match_objs_score:
  "api_match_objs rem cs = Inr objs \<Longrightarrow> m \<in> set objs \<Longrightarrow>
     \<exists>cand \<in> set cs. match_score m = Some (cand_score cand)"
proof (induction cs arbitrary: objs)
  case Nil
  then show ?case by simp
next
  case (Cons cand cs)
  then show ?case
    by (auto split: sum.splits dest: api_match_obj_score)
qed

lemma set_sort_by_score: "set (sort_by_score f xs) = set xs"
  by (simp add: sort_by_score_def)

lemma find_matching_claims_floor:
  assumes "find_matching_claims rx rem crit = Inr ms" and "m \<in> set ms"
  shows "\<exists>s. match_score m = Some s \<and> 89 \<le> s"
proof (cases "strptime (date_of_service crit)")
  case None
  with assms show ?thesis by (simp add: find_matching_claims_def)
next
  case (Some td)
  show ?thesis
  proof (cases "collect_candidates rx rem crit td")
    case (Inl e)
    with Some assms show ?thesis by (simp add: find_matching_claims_def)
  next
    case (Inr cands)
    define high where "high = filter (\<lambda>cand. cand_score cand \<ge> MIN_ACCEPTABLE_SCORE) cands"
    show ?thesis
    proof (cases "high = []")
      case True
      with Some Inr assms show ?thesis by (simp add: find_matching_claims_def high_def)
    next
      case False
      show ?thesis
      proof (cases "api_match_objs rem (sort_by_score cand_score high)")
        case (Inl e)
        with Some Inr False assms show ?thesis
          by (simp add: find_matching_claims_def high_def)
      next
        case objs: (Inr objs)
        have ms: "ms = prioritize (filter (\<lambda>m. \<not> flag_truthy (is_secondary m)) objs)
                         (filter (\<lambda>m. flag_truthy (is_secondary m)) objs)"
          using Some Inr False objs assms(1)
          by (simp add: find_matching_claims_def high_def Let_def)
        from prioritize_score [OF assms(2) [unfolded ms]]
        obtain m' where m': "m' \<in> set objs" "match_score m = match_score m'" by auto
        from api_match_objs_score [OF objs m'(1)]
        obtain cand where c: "cand \<in> set high" "match_score m' = Some (cand_score cand)"
          by (auto simp: set_sort_by_score)
        from c(1) have "89 \<le> cand_score cand"
          by (simp add: high_def MIN_ACCEPTABLE_SCORE_def)
        with m' c show ?thesis by simp
      qed
    qed
  qed
qed

text \<open>
  C1. A candidate that the scorer accepts (it returns a score that is not 0) has the score
  30 + 10 + nameScore + 30, where nameScore is the result of the name gate and lies
  between 20 and 30, so the score lies between 90 and 100; and every match that
  \<open>find_matching_claims\<close> returns carries a score of at least 89.
\<close>

theorem api_score_range_and_floor:
  "(score_api_claim_candidate rx c procs crit owner = Inr (s, u, t) \<and> s \<noteq> 0 \<longrightarrow>
      (\<exists>ns. name_gate rx (pd_FName owner) (pd_LName owner)
               (patient_first_name crit) (patient_last_name crit) = Some ns
           \<and> 20 \<le> ns \<and> ns \<le> 30 \<and> s = 30 + 10 + ns + 30 \<and> 90 \<le> s \<and> s \<le> 100))
   \<and> (find_matching_claims rx rem crit = Inr ms \<longrightarrow>
        (\<forall>m \<in> set ms. \<exists>sc. match_score m = Some sc \<and> 89 \<le> sc))"
proof (intro conjI impI ballI)
  assume a: "score_api_claim_candidate rx c procs crit owner = Inr (s, u, t) \<and> s \<noteq> 0"
  then have "api_candidate_verdict rx c procs crit owner = Inr (Passed s u t)"
    by (simp add: score_positive_iff_passed)
  from verdict_passed_score [OF this] obtain ns where
    ns: "name_gate rx (pd_FName owner) (pd_LName owner)
           (patient_first_name crit) (patient_last_name crit) = Some ns"
        "s = 30 + 10 + ns + 30" by blast
  from name_gate_range [OF ns(1)] have "20 \<le> ns \<and> ns \<le> 30" .
  with ns show "\<exists>ns. name_gate rx (pd_FName owner) (pd_LName owner)
               (patient_first_name crit) (patient_last_name crit) = Some ns
           \<and> 20 \<le> ns \<and> ns \<le> 30 \<and> s = 30 + 10 + ns + 30 \<and> 90 \<le> s \<and> s \<le> 100"
    by auto
next
  fix m assume "find_matching_claims rx rem crit = Inr ms" "m \<in> set ms"
  then show "\<exists>sc. match_score m = Some sc \<and> 89 \<le> sc"
    by (rule find_matching_claims_floor)
qed

theorem api_score_range_and_floor_witness:
  "score_api_claim_candidate
     (\<lparr>nick_search = (\<lambda>q s. RxNoMatch), part_search = (\<lambda>q s.
       RxNoMatch)\<rparr>)
     (\<lparr>ac_ClaimNum = Some 7, ac_PatNum = Some 3, ac_DateService = Some ''2024-03-05'',
       ac_ClaimStatus = Some ''S'', ac_ClaimType = Some ''P'', ac_InsSubNum2 = None, ac_PlanNum2
       = None, ac_ClaimFee = Some (PyNum 50)\<rparr>)
     [\<lparr>cp_proc_code = None, cp_code = None, cp_CodeSent = Some ''D0120'', cp_fee_billed =
       None, cp_FeeBilled = Some 50\<rparr>]
     (\<lparr>date_of_service = ''2024-03-05'', patient_first_name = ''William'',
       patient_last_name = ''Smith'', subscriber_first_name = '''', subscriber_last_name = '''',
       payment_info = \<lparr>procedures = [\<lparr>proc_code = ''D0120'', submitted_amt = 50,
       amount_paid = 50, remarks = '''', deductible = 0, writeoff = 0, markAsNotReceived =
       False\<rparr>], check_number = None, check_amount = None, date_issued = None, bank_branch
       = None, carrier_name = None, pay_type = None, pi_note = None\<rparr>\<rparr>)
     (\<lparr>pd_PatNum = Some 3, pd_FName = Some ''Bill'', pd_LName = Some ''Smith''\<rparr>)
     = Inr (100, False, [])
   \<and> (\<exists>ns. name_gate
         (\<lparr>nick_search = (\<lambda>q s. RxNoMatch), part_search = (\<lambda>q s.
           RxNoMatch)\<rparr>)
         (Some ''Bill'') (Some ''Smith'') ''William'' ''Smith'' = Some ns
         \<and> 20 \<le> ns \<and> ns \<le> 30 \<and> (100::int) = 30 + 10 + ns + 30)
   \<and> (\<exists>m sc. find_matching_claims
         (\<lparr>nick_search = (\<lambda>q s. RxNoMatch), part_search = (\<lambda>q s.
           RxNoMatch)\<rparr>)
         (\<lparr>get_patient_data = (\<lambda>l f. Some (\<lparr>pd_PatNum = Some 3, pd_FName =
           Some ''Bill'', pd_LName = Some ''Smith''\<rparr>, [\<lparr>ac_ClaimNum = Some 7,
           ac_PatNum = Some 3, ac_DateService = Some ''2024-03-05'', ac_ClaimStatus = Some
           ''S'', ac_ClaimType = Some ''P'', ac_InsSubNum2 = None, ac_PlanNum2 =
           None, ac_ClaimFee = Some (PyNum 50)\<rparr>])), get_subscriber_data = (\<lambda>l f. None), req_claimprocs =
           (\<lambda>n. Inr (Some [\<lparr>cp_proc_code = None, cp_code = None, cp_CodeSent =
           Some ''D0120'', cp_fee_billed = None, cp_FeeBilled = Some 50\<rparr>])),
           req_claims_by_inssub = (\<lambda>n. Inr None), req_patient = (\<lambda>n. Inr None),
           req_patplans = (\<lambda>n. Inr None)\<rparr>)
         (\<lparr>date_of_service = ''2024-03-05'', patient_first_name = ''William'',
           patient_last_name = ''Smith'', subscriber_first_name = '''', subscriber_last_name =
           '''', payment_info = \<lparr>procedures = [\<lparr>proc_code = ''D0120'',
           submitted_amt = 50, amount_paid = 50, remarks = '''', deductible = 0, writeoff = 0,
           markAsNotReceived = False\<rparr>], check_number = None, check_amount = None,
           date_issued = None, bank_branch = None, carrier_name = None, pay_type = None, pi_note
           = None\<rparr>\<rparr>)
         = Inr [m] \<and> match_score m = Some sc \<and> 89 \<le> sc)"
proof -
  let ?rx = "\<lparr>nick_search = (\<lambda>q s. RxNoMatch), part_search = (\<lambda>q s. RxNoMatch)\<rparr>"
  let ?claim = "\<lparr>ac_ClaimNum = Some 7, ac_PatNum = Some 3, ac_DateService = Some ''2024-03-05'', ac_ClaimStatus = Some ''S'', ac_ClaimType = Some ''P'', ac_InsSubNum2 = None, ac_PlanNum2 = None, ac_ClaimFee = Some (PyNum 50)\<rparr>"
  let ?procs = "[\<lparr>cp_proc_code = None, cp_code = None, cp_CodeSent = Some ''D0120'', cp_fee_billed = None, cp_FeeBilled = Some 50\<rparr>]"
  let ?crit = "\<lparr>date_of_service = ''2024-03-05'', patient_first_name = ''William'', patient_last_name = ''Smith'', subscriber_first_name = '''', subscriber_last_name = '''', payment_info = \<lparr>procedures = [\<lparr>proc_code = ''D0120'', submitted_amt = 50, amount_paid = 50, remarks = '''', deductible = 0, writeoff = 0, markAsNotReceived = False\<rparr>], check_number = None, check_amount = None, date_issued = None, bank_branch = None, carrier_name = None, pay_type = None, pi_note = None\<rparr>\<rparr>"
  let ?owner = "\<lparr>pd_PatNum = Some 3, pd_FName = Some ''Bill'', pd_LName = Some ''Smith''\<rparr>"
  let ?rem = "\<lparr>get_patient_data = (\<lambda>l f. Some (\<lparr>pd_PatNum = Some 3, pd_FName = Some ''Bill'', pd_LName = Some ''Smith''\<rparr>, [\<lparr>ac_ClaimNum = Some 7, ac_PatNum = Some 3, ac_DateService = Some ''2024-03-05'', ac_ClaimStatus = Some ''S'', ac_ClaimType = Some ''P'', ac_InsSubNum2 = None, ac_PlanNum2 = None, ac_ClaimFee = Some (PyNum 50)\<rparr>])), get_subscriber_data = (\<lambda>l f. None), req_claimprocs = (\<lambda>n. Inr (Some [\<lparr>cp_proc_code = None, cp_code = None, cp_CodeSent = Some ''D0120'', cp_fee_billed = None, cp_FeeBilled = Some 50\<rparr>])), req_claims_by_inssub = (\<lambda>n. Inr None), req_patient = (\<lambda>n. Inr None), req_patplans = (\<lambda>n. Inr None)\<rparr>"
  let ?m = "\<lparr>claim_num = 7, pat_num = Some 3, cm_date_of_service = ''2024-03-05'', is_secondary = PBool False, has_secondary_plan = False, has_pending_secondary = False, match_score = Some 100, match_source = ''api_strict_scored'', claim_procs = [\<lparr>mp_CodeSent = Some ''D0120'', mp_FeeBilled = 50\<rparr>], is_supplemental = False, claim_status = Some ''S''\<rparr>"
  have a: "score_api_claim_candidate ?rx ?claim ?procs ?crit ?owner = Inr (100, False, [])"
    by code_simp
  have b: "find_matching_claims ?rx ?rem ?crit = Inr [?m]"
    by code_simp
  note inst = api_score_range_and_floor
    [of "?rx" "?claim" "?procs" "?crit" "?owner" 100 False "[]" "?rem" "[?m]"]
  from inst a have "\<exists>ns. name_gate ?rx (Some ''Bill'') (Some ''Smith'') ''William'' ''Smith'' = Some ns
         \<and> 20 \<le> ns \<and> ns \<le> 30 \<and> (100::int) = 30 + 10 + ns + 30"
    by simp
  moreover from inst b have "\<exists>sc. match_score ?m = Some sc \<and> 89 \<le> sc"
    by simp
  ultimately show ?thesis using a b by blast
qed

section \<open>The fee-array override\<close>

text \<open>
  The double nearest to 32.99 minus the double nearest to 31.99 is \<open>1 + 2 ^ -48\<close>, and
  the double quotient of 51.0 - 49.98 by 51.0 lies above the double nearest to 0.02.
\<close>

lemma double_difference_above_one:
  "float_sub (float_of (3299 / 100)) (float_of (3199 / 100)) = 1 + 1 / 2 ^ 48"
  by code_simp

lemma double_ratio_above_two_percent:
  "float_of (2 / 100) < float_div (float_sub (float_of 51) (float_of (4998 / 100))) (float_of 51)"
  by code_simp

lemma fee_matches_loop_at_bound:
  "fee_matches_loop [(float_of (3199 / 100), float_of (3299 / 100))] = 0"
  "fee_matches_loop [(float_of (4998 / 100), float_of 51)] = 0"
  "fee_matches_loop [(float_of 50, float_of 50)] = 1"
  by code_simp+

text \<open>
  C2. The claim: for a candidate whose procedure match percentage is at most 49 percent,
  the fee-array override fires exactly when the name score is at least 25, the positive
  billed fees and the positive submitted amounts are non-empty lists of equal length and,
  sorted and paired, at least 80 percent of the pairs differ by at most 1.00 dollar or
  by at most 2 percent of the larger value (\<open>spec_fee_array_rule\<close>). The code does not
  fire at the bound of the rule. A billed fee of 31.99 against a submitted amount of
  32.99 differs by 1.00 dollar, and 49.98 against 51.00 by 2 percent of 51.00: the rule
  holds for both, the override returns false for both, and the candidate, whose second
  line without a fee keeps the count override away, is rejected by the procedure check.
  Where the claim's fee is null, the scorer raises \<open>TypeError\<close> at line 652 before it
  tries the override, although the rule holds for the equal fees 50.00 and 50.00.
\<close>

theorem fee_array_override_at_bound:
  "spec_fee_array_rule 30
     [\<lparr>cp_proc_code = None, cp_code = None, cp_CodeSent = Some ''D0140'', cp_fee_billed =
       None, cp_FeeBilled = Some (3199 / 100)\<rparr>, \<lparr>cp_proc_code = None, cp_code =
       None, cp_CodeSent = Some ''D9999'', cp_fee_billed = None, cp_FeeBilled = Some 0\<rparr>]
     [\<lparr>proc_code = ''D0120'', submitted_amt = (3299 / 100), amount_paid = (3299 / 100),
       remarks = '''', deductible = 0, writeoff = 0, markAsNotReceived = False\<rparr>]
   \<and> \<not> has_strong_non_procedure_match_with_fees (2024, 3, 5) (2024, 3, 5) 30
     [\<lparr>cp_proc_code = None, cp_code = None, cp_CodeSent = Some ''D0140'', cp_fee_billed =
       None, cp_FeeBilled = Some (3199 / 100)\<rparr>, \<lparr>cp_proc_code = None, cp_code =
       None, cp_CodeSent = Some ''D9999'', cp_fee_billed = None, cp_FeeBilled = Some 0\<rparr>]
     [\<lparr>proc_code = ''D0120'', submitted_amt = (3299 / 100), amount_paid = (3299 / 100),
       remarks = '''', deductible = 0, writeoff = 0, markAsNotReceived = False\<rparr>]
   \<and> api_candidate_verdict
     (\<lparr>nick_search = (\<lambda>q s. RxNoMatch), part_search = (\<lambda>q s.
       RxNoMatch)\<rparr>)
     (\<lparr>ac_ClaimNum = Some 7, ac_PatNum = Some 3, ac_DateService = Some ''2024-03-05'',
       ac_ClaimStatus = Some ''S'', ac_ClaimType = Some ''P'', ac_InsSubNum2 = None, ac_PlanNum2
       = None, ac_ClaimFee = Some (PyNum (3199 / 100))\<rparr>)
     [\<lparr>cp_proc_code = None, cp_code = None, cp_CodeSent = Some ''D0140'', cp_fee_billed =
       None, cp_FeeBilled = Some (3199 / 100)\<rparr>, \<lparr>cp_proc_code = None, cp_code =
       None, cp_CodeSent = Some ''D9999'', cp_fee_billed = None, cp_FeeBilled = Some 0\<rparr>]
     (\<lparr>date_of_service = ''2024-03-05'', patient_first_name = ''John'', patient_last_name
       = ''Smith'', subscriber_first_name = '''', subscriber_last_name = '''', payment_info =
       \<lparr>procedures = [\<lparr>proc_code = ''D0120'', submitted_amt = (3299 / 100),
       amount_paid = (3299 / 100), remarks = '''', deductible = 0, writeoff = 0,
       markAsNotReceived = False\<rparr>], check_number = None, check_amount = None, date_issued
       = None, bank_branch = None, carrier_name = None, pay_type = None, pi_note =
       None\<rparr>\<rparr>)
     (\<lparr>pd_PatNum = Some 3, pd_FName = Some ''John'', pd_LName = Some ''Smith''\<rparr>)
     = Inr (Rejected ProcedureGate)
   \<and> spec_fee_array_rule 30
     [\<lparr>cp_proc_code = None, cp_code = None, cp_CodeSent = Some ''D0140'', cp_fee_billed =
       None, cp_FeeBilled = Some (4998 / 100)\<rparr>, \<lparr>cp_proc_code = None, cp_code =
       None, cp_CodeSent = Some ''D9999'', cp_fee_billed = None, cp_FeeBilled = Some 0\<rparr>]
     [\<lparr>proc_code = ''D0120'', submitted_amt = 51, amount_paid = 51, remarks = '''',
       deductible = 0, writeoff = 0, markAsNotReceived = False\<rparr>]
   \<and> \<not> has_strong_non_procedure_match_with_fees (2024, 3, 5) (2024, 3, 5) 30
     [\<lparr>cp_proc_code = None, cp_code = None, cp_CodeSent = Some ''D0140'', cp_fee_billed =
       None, cp_FeeBilled = Some (4998 / 100)\<rparr>, \<lparr>cp_proc_code = None, cp_code =
       None, cp_CodeSent = Some ''D9999'', cp_fee_billed = None, cp_FeeBilled = Some 0\<rparr>]
     [\<lparr>proc_code = ''D0120'', submitted_amt = 51, amount_paid = 51, remarks = '''',
       deductible = 0, writeoff = 0, markAsNotReceived = False\<rparr>]
   \<and> api_candidate_verdict
     (\<lparr>nick_search = (\<lambda>q s. RxNoMatch), part_search = (\<lambda>q s.
       RxNoMatch)\<rparr>)
     (\<lparr>ac_ClaimNum = Some 7, ac_PatNum = Some 3, ac_DateService = Some ''2024-03-05'',
       ac_ClaimStatus = Some ''S'', ac_ClaimType = Some ''P'', ac_InsSubNum2 = None, ac_PlanNum2
       = None, ac_ClaimFee = Some (PyNum (4998 / 100))\<rparr>)
     [\<lparr>cp_proc_code = None, cp_code = None, cp_CodeSent = Some ''D0140'', cp_fee_billed =
       None, cp_FeeBilled = Some (4998 / 100)\<rparr>, \<lparr>cp_proc_code = None, cp_code =
       None, cp_CodeSent = Some ''D9999'', cp_fee_billed = None, cp_FeeBilled = Some 0\<rparr>]
     (\<lparr>date_of_service = ''2024-03-05'', patient_first_name = ''John'', patient_last_name
       = ''Smith'', subscriber_first_name = '''', subscriber_last_name = '''', payment_info =
       \<lparr>procedures = [\<lparr>proc_code = ''D0120'', submitted_amt = 51, amount_paid =
       51, remarks = '''', deductible = 0, writeoff = 0, markAsNotReceived = False\<rparr>],
       check_number = None, check_amount = None, date_issued = None, bank_branch = None,
       carrier_name = None, pay_type = None, pi_note = None\<rparr>\<rparr>)
     (\<lparr>pd_PatNum = Some 3, pd_FName = Some ''John'', pd_LName = Some ''Smith''\<rparr>)
     = Inr (Rejected ProcedureGate)
   \<and> spec_fee_array_rule 30
     [\<lparr>cp_proc_code = None, cp_code = None, cp_CodeSent = Some ''D0140'', cp_fee_billed =
       None, cp_FeeBilled = Some 50\<rparr>]
     [\<lparr>proc_code = ''D0120'', submitted_amt = 50, amount_paid = 50, remarks = '''',
       deductible = 0, writeoff = 0, markAsNotReceived = False\<rparr>]
   \<and> api_procedure_gate (2024, 3, 5) (2024, 3, 5) 30
     (\<lparr>ac_ClaimNum = Some 7, ac_PatNum = Some 3, ac_DateService = Some ''2024-03-05'',
       ac_ClaimStatus = Some ''S'', ac_ClaimType = Some ''P'', ac_InsSubNum2 = None, ac_PlanNum2
       = None, ac_ClaimFee = Some PyNone\<rparr>)
     [\<lparr>cp_proc_code = None, cp_code = None, cp_CodeSent = Some ''D0140'', cp_fee_billed =
       None, cp_FeeBilled = Some 50\<rparr>]
     (\<lparr>date_of_service = ''2024-03-05'', patient_first_name = ''John'', patient_last_name
       = ''Smith'', subscriber_first_name = '''', subscriber_last_name = '''', payment_info =
       \<lparr>procedures = [\<lparr>proc_code = ''D0120'', submitted_amt = 50, amount_paid =
       50, remarks = '''', deductible = 0, writeoff = 0, markAsNotReceived = False\<rparr>],
       check_number = None, check_amount = None, date_issued = None, bank_branch = None,
       carrier_name = None, pay_type = None, pi_note = None\<rparr>\<rparr>)
     = Inl TypeError"
  by code_simp
section \<open>The loop body of the cache path\<close>

lemma cached_match_obj_fields:
  assumes "cached_match_obj claim ds sc src = Matched m"
  shows "match_score m = Some sc \<and> match_source m = src \<and> \<not> has_pending_secondary m
         \<and> is_secondary m = cached_is_secondary claim"
  using assms unfolding cached_match_obj_def
  by (auto split: option.splits prod.splits)

lemma cached_match_obj_not_skipped: "cached_match_obj claim ds sc src \<noteq> Skipped r"
  unfolding cached_match_obj_def by (auto split: option.splits prod.splits)

lemma cached_claim_accept_Matched:
  assumes "cached_claim_accept rx crit cd td codes claim ds ns = Matched m"
  shows "\<exists>ab. cached_procedure_gate cd td ns (cached_procs_list claim)
                (procedures (payment_info crit))
                (cached_procedure_percentage codes (db_codes_loop (cached_procs_list claim)))
              = Some ab
            \<and> match_score m = Some (30 + 10 + ns + 30 + subscriber_bonus rx crit claim)
            \<and> match_source m =
                cached_match_source cd td ns (cached_procs_list claim)
                  (procedures (payment_info crit))
                  (cached_procedure_percentage codes (db_codes_loop (cached_procs_list claim))) ab
            \<and> \<not> has_pending_secondary m
            \<and> is_secondary m = cached_is_secondary claim"
  using assms unfolding cached_claim_accept_def Let_def
  by (auto split: option.splits dest: cached_match_obj_fields)

lemma cached_claim_accept_not_name_skip:
  "cached_claim_accept rx crit cd td codes claim ds ns \<noteq> Skipped NameSkip"
  unfolding cached_claim_accept_def Let_def
  by (auto split: option.splits simp: cached_match_obj_not_skipped)

lemma cached_claim_step_after_gates:
  assumes "or_str (or_str (cc_date_of_service claim) (cc_claim_date claim)) (cc_DateService claim)
             = Some ds"
    and "ds \<noteq> []" and "strptime ds = Some td" and "cached_status_gate claim"
    and "str_truthy (or_str (cc_patient_first_name claim) (cc_pat_fn claim))"
    and "str_truthy (or_str (cc_patient_last_name claim) (cc_pat_ln claim))"
  shows "cached_claim_step rx crit td cfn cln codes claim =
           (case name_gate rx (or_str (cc_patient_first_name claim) (cc_pat_fn claim))
                   (or_str (cc_patient_last_name claim) (cc_pat_ln claim)) cfn cln of
              None \<Rightarrow> Skipped NameSkip
            | Some ns \<Rightarrow> cached_claim_accept rx crit td td codes claim ds ns)"
  using assms unfolding cached_claim_step_def Let_def by simp


section \<open>The name gate\<close>

lemma api_verdict_after_gates:
  assumes "strptime (case ac_DateService c of None \<Rightarrow> [] | Some s \<Rightarrow> s) = Some d"
    and "strptime (date_of_service crit) = Some d"
    and "ac_ClaimStatus c \<in> {Some ''S'', Some ''H''}"
  shows "api_candidate_verdict rx c procs crit owner =
           (case name_gate rx (pd_FName owner) (pd_LName owner)
                   (patient_first_name crit) (patient_last_name crit) of
              None \<Rightarrow> Inr (Rejected NameGate)
            | Some ns \<Rightarrow>
                (case api_procedure_gate d d ns c procs crit of
                   Inl e \<Rightarrow> Inl e
                 | Inr None \<Rightarrow> Inr (Rejected ProcedureGate)
                 | Inr (Some (u, t)) \<Rightarrow> Inr (Passed (30 + 10 + ns + 30) u t)))"
  using assms unfolding api_candidate_verdict_def by simp

text \<open>
  C7. In both scorers, once the date and status checks have passed (and, on the cache
  path, the cached claim has both names), the candidate is rejected by the name check
  exactly when the score of the criteria's names and the score of the names swapped are
  both below 20; and the name score in the final score is the first score when it is at
  least 20, otherwise the score of the swapped names.
\<close>

theorem name_swap_gate:
  "(strptime (case ac_DateService c of None \<Rightarrow> [] | Some s \<Rightarrow> s) = Some d
      \<and> strptime (date_of_service crit) = Some d
      \<and> ac_ClaimStatus c \<in> {Some ''S'', Some ''H''} \<longrightarrow>
      (api_candidate_verdict rx c procs crit owner = Inr (Rejected NameGate) \<longleftrightarrow>
         calculate_name_match_score_with_nicknames rx (pd_FName owner) (pd_LName owner) (patient_first_name crit) (patient_last_name crit) < 20
         \<and> calculate_name_match_score_with_nicknames rx (pd_FName owner) (pd_LName owner) (patient_last_name crit) (patient_first_name crit) < 20)
      \<and> (\<forall>s u t. api_candidate_verdict rx c procs crit owner = Inr (Passed s u t) \<longrightarrow>
            s = 30 + 10
                + (if 20 \<le> calculate_name_match_score_with_nicknames rx (pd_FName owner) (pd_LName owner)
                               (patient_first_name crit) (patient_last_name crit)
                   then calculate_name_match_score_with_nicknames rx (pd_FName owner) (pd_LName owner)
                          (patient_first_name crit) (patient_last_name crit)
                   else calculate_name_match_score_with_nicknames rx (pd_FName owner) (pd_LName owner)
                          (patient_last_name crit) (patient_first_name crit))
                + 30))
   \<and> (or_str (or_str (cc_date_of_service claim) (cc_claim_date claim)) (cc_DateService claim)
         = Some ds
       \<and> ds \<noteq> [] \<and> strptime ds = Some td \<and> cached_status_gate claim
       \<and> or_str (cc_patient_first_name claim) (cc_pat_fn claim) = Some pfn \<and> pfn \<noteq> []
       \<and> or_str (cc_patient_last_name claim) (cc_pat_ln claim) = Some pln \<and> pln \<noteq> [] \<longrightarrow>
       (cached_claim_step rx crit td cfn cln codes claim = Skipped NameSkip \<longleftrightarrow>
          calculate_name_match_score_with_nicknames rx (Some pfn) (Some pln) cfn cln < 20 \<and> calculate_name_match_score_with_nicknames rx (Some pfn) (Some pln) cln cfn < 20)
       \<and> (\<forall>m. cached_claim_step rx crit td cfn cln codes claim = Matched m \<longrightarrow>
             match_score m =
               Some (30 + 10
                     + (if 20 \<le> calculate_name_match_score_with_nicknames rx (Some pfn) (Some pln) cfn cln
                        then calculate_name_match_score_with_nicknames rx (Some pfn) (Some pln) cfn cln
                        else calculate_name_match_score_with_nicknames rx (Some pfn) (Some pln) cln cfn)
                     + 30 + subscriber_bonus rx crit claim)))"
proof (intro conjI impI)
  assume a: "strptime (case ac_DateService c of None \<Rightarrow> [] | Some s \<Rightarrow> s) = Some d
      \<and> strptime (date_of_service crit) = Some d
      \<and> ac_ClaimStatus c \<in> {Some ''S'', Some ''H''}"
  then have v: "api_candidate_verdict rx c procs crit owner =
           (case name_gate rx (pd_FName owner) (pd_LName owner)
                   (patient_first_name crit) (patient_last_name crit) of
              None \<Rightarrow> Inr (Rejected NameGate)
            | Some ns \<Rightarrow>
                (case api_procedure_gate d d ns c procs crit of
                   Inl e \<Rightarrow> Inl e
                 | Inr None \<Rightarrow> Inr (Rejected ProcedureGate)
                 | Inr (Some (u, t)) \<Rightarrow> Inr (Passed (30 + 10 + ns + 30) u t)))"
    by (intro api_verdict_after_gates) simp_all
  show "api_candidate_verdict rx c procs crit owner = Inr (Rejected NameGate) \<longleftrightarrow>
         calculate_name_match_score_with_nicknames rx (pd_FName owner) (pd_LName owner) (patient_first_name crit) (patient_last_name crit) < 20
         \<and> calculate_name_match_score_with_nicknames rx (pd_FName owner) (pd_LName owner) (patient_last_name crit) (patient_first_name crit) < 20"
    unfolding v  name_gate_cases
    by (auto split: option.splits sum.splits)
  show "\<forall>s u t. api_candidate_verdict rx c procs crit owner = Inr (Passed s u t) \<longrightarrow>
            s = 30 + 10
                + (if 20 \<le> calculate_name_match_score_with_nicknames rx (pd_FName owner) (pd_LName owner)
                               (patient_first_name crit) (patient_last_name crit)
                   then calculate_name_match_score_with_nicknames rx (pd_FName owner) (pd_LName owner)
                          (patient_first_name crit) (patient_last_name crit)
                   else calculate_name_match_score_with_nicknames rx (pd_FName owner) (pd_LName owner)
                          (patient_last_name crit) (patient_first_name crit))
                + 30"
    unfolding v  name_gate_cases
    by (auto split: option.splits if_splits sum.splits)
next
  assume a: "or_str (or_str (cc_date_of_service claim) (cc_claim_date claim)) (cc_DateService claim)
         = Some ds
       \<and> ds \<noteq> [] \<and> strptime ds = Some td \<and> cached_status_gate claim
       \<and> or_str (cc_patient_first_name claim) (cc_pat_fn claim) = Some pfn \<and> pfn \<noteq> []
       \<and> or_str (cc_patient_last_name claim) (cc_pat_ln claim) = Some pln \<and> pln \<noteq> []"
  then have st: "cached_claim_step rx crit td cfn cln codes claim =
           (case name_gate rx (Some pfn) (Some pln) cfn cln of
              None \<Rightarrow> Skipped NameSkip
            | Some ns \<Rightarrow> cached_claim_accept rx crit td td codes claim ds ns)"
    using cached_claim_step_after_gates [of claim ds td rx crit cfn cln codes]
    by (simp add: str_truthy_def)
  show "cached_claim_step rx crit td cfn cln codes claim = Skipped NameSkip \<longleftrightarrow>
          calculate_name_match_score_with_nicknames rx (Some pfn) (Some pln) cfn cln < 20 \<and> calculate_name_match_score_with_nicknames rx (Some pfn) (Some pln) cln cfn < 20"
    unfolding st  name_gate_cases
    by (auto split: option.splits simp: cached_claim_accept_not_name_skip)
  show "\<forall>m. cached_claim_step rx crit td cfn cln codes claim = Matched m \<longrightarrow>
             match_score m =
               Some (30 + 10
                     + (if 20 \<le> calculate_name_match_score_with_nicknames rx (Some pfn) (Some pln) cfn cln
                        then calculate_name_match_score_with_nicknames rx (Some pfn) (Some pln) cfn cln
                        else calculate_name_match_score_with_nicknames rx (Some pfn) (Some pln) cln cfn)
                     + 30 + subscriber_bonus rx crit claim)"
    unfolding st  name_gate_cases
    by (auto split: option.splits if_splits dest!: cached_claim_accept_Matched)
qed

theorem name_swap_gate_witness:
  "calculate_name_match_score_with_nicknames
     (\<lparr>nick_search = (\<lambda>q s. (if q = s then RxMatch else RxNoMatch)), part_search
       = (\<lambda>q s. (if q = s then RxMatch else RxNoMatch))\<rparr>)
     (Some ''William'') (Some ''Smith'') ''Smith'' ''William'' = 0
   \<and> calculate_name_match_score_with_nicknames
     (\<lparr>nick_search = (\<lambda>q s. (if q = s then RxMatch else RxNoMatch)), part_search
       = (\<lambda>q s. (if q = s then RxMatch else RxNoMatch))\<rparr>)
     (Some ''William'') (Some ''Smith'') ''William'' ''Smith'' = 30
   \<and> api_candidate_verdict
     (\<lparr>nick_search = (\<lambda>q s. (if q = s then RxMatch else RxNoMatch)), part_search
       = (\<lambda>q s. (if q = s then RxMatch else RxNoMatch))\<rparr>)
     (\<lparr>ac_ClaimNum = Some 7, ac_PatNum = Some 3, ac_DateService = Some ''2024-03-05'',
       ac_ClaimStatus = Some ''S'', ac_ClaimType = Some ''P'', ac_InsSubNum2 = None, ac_PlanNum2
       = None, ac_ClaimFee = Some (PyNum 50)\<rparr>)
     [\<lparr>cp_proc_code = None, cp_code = None, cp_CodeSent = Some ''D0120'', cp_fee_billed =
       None, cp_FeeBilled = Some 50\<rparr>]
     (\<lparr>date_of_service = ''2024-03-05'', patient_first_name = ''Smith'',
       patient_last_name = ''William'', subscriber_first_name = '''', subscriber_last_name =
       '''', payment_info = \<lparr>procedures = [\<lparr>proc_code = ''D0120'', submitted_amt =
       50, amount_paid = 50, remarks = '''', deductible = 0, writeoff = 0, markAsNotReceived =
       False\<rparr>], check_number = None, check_amount = None, date_issued = None, bank_branch
       = None, carrier_name = None, pay_type = None, pi_note = None\<rparr>\<rparr>)
     (\<lparr>pd_PatNum = Some 3, pd_FName = Some ''William'', pd_LName = Some
       ''Smith''\<rparr>)
     = Inr (Passed 100 False [])
   \<and> api_candidate_verdict
     (\<lparr>nick_search = (\<lambda>q s. (if q = s then RxMatch else RxNoMatch)), part_search
       = (\<lambda>q s. (if q = s then RxMatch else RxNoMatch))\<rparr>)
     (\<lparr>ac_ClaimNum = Some 7, ac_PatNum = Some 3, ac_DateService = Some ''2024-03-05'',
       ac_ClaimStatus = Some ''S'', ac_ClaimType = Some ''P'', ac_InsSubNum2 = None, ac_PlanNum2
       = None, ac_ClaimFee = Some (PyNum 50)\<rparr>)
     [\<lparr>cp_proc_code = None, cp_code = None, cp_CodeSent = Some ''D0120'', cp_fee_billed =
       None, cp_FeeBilled = Some 50\<rparr>]
     (\<lparr>date_of_service = ''2024-03-05'', patient_first_name = ''Mary'', patient_last_name
       = ''Jones'', subscriber_first_name = '''', subscriber_last_name = '''', payment_info =
       \<lparr>procedures = [\<lparr>proc_code = ''D0120'', submitted_amt = 50, amount_paid =
       50, remarks = '''', deductible = 0, writeoff = 0, markAsNotReceived = False\<rparr>],
       check_number = None, check_amount = None, date_issued = None, bank_branch = None,
       carrier_name = None, pay_type = None, pi_note = None\<rparr>\<rparr>)
     (\<lparr>pd_PatNum = Some 3, pd_FName = Some ''William'', pd_LName = Some
       ''Smith''\<rparr>)
     = Inr (Rejected NameGate)
   \<and> cached_claim_step
     (\<lparr>nick_search = (\<lambda>q s. (if q = s then RxMatch else RxNoMatch)), part_search
       = (\<lambda>q s. (if q = s then RxMatch else RxNoMatch))\<rparr>)
     (\<lparr>date_of_service = ''2024-03-05'', patient_first_name = ''Smith'',
       patient_last_name = ''William'', subscriber_first_name = '''', subscriber_last_name =
       '''', payment_info = \<lparr>procedures = [\<lparr>proc_code = ''D0120'', submitted_amt =
       50, amount_paid = 50, remarks = '''', deductible = 0, writeoff = 0, markAsNotReceived =
       False\<rparr>], check_number = None, check_amount = None, date_issued = None, bank_branch
       = None, carrier_name = None, pay_type = None, pi_note = None\<rparr>\<rparr>)
     (2024, 3, 5) ''Smith'' ''William'' [''D0120'']
     (\<lparr>cc_claim_num = Some 11, cc_ClaimNum = None, cc_pat_num = Some 4, cc_PatNum = None,
       cc_date_of_service = Some ''2024-03-05'', cc_claim_date = None, cc_DateService = None,
       cc_claim_status = Some ''S'', cc_ClaimStatus = None, cc_is_secondary = None,
       cc_IsSecondary = None, cc_patient_first_name = Some ''William'', cc_pat_fn = None,
       cc_patient_last_name = Some ''Smith'', cc_pat_ln = None, cc_procedures = Some
       [\<lparr>cp_proc_code = Some ''D0120'', cp_code = None, cp_CodeSent = None, cp_fee_billed
       = Some 50, cp_FeeBilled = None\<rparr>], cc_claim_procs = None, cc_subscriber_first_name
       = None, cc_subscriber_last_name = None, cc_plan_type = None, cc_ClaimType = None,
       cc_has_secondary_plan = None, cc_is_supplemental = None\<rparr>)
     = Matched
     (\<lparr>claim_num = 11, pat_num = Some 4, cm_date_of_service = ''2024-03-05'',
       is_secondary = PBool False, has_secondary_plan = False, has_pending_secondary = False,
       match_score = Some 100, match_source = ''database_strict'', claim_procs =
       [\<lparr>mp_CodeSent = Some ''D0120'', mp_FeeBilled = 50\<rparr>], is_supplemental =
       False, claim_status = Some ''S''\<rparr>)
   \<and> cached_claim_step
     (\<lparr>nick_search = (\<lambda>q s. (if q = s then RxMatch else RxNoMatch)), part_search
       = (\<lambda>q s. (if q = s then RxMatch else RxNoMatch))\<rparr>)
     (\<lparr>date_of_service = ''2024-03-05'', patient_first_name = ''Mary'', patient_last_name
       = ''Jones'', subscriber_first_name = '''', subscriber_last_name = '''', payment_info =
       \<lparr>procedures = [\<lparr>proc_code = ''D0120'', submitted_amt = 50, amount_paid =
       50, remarks = '''', deductible = 0, writeoff = 0, markAsNotReceived = False\<rparr>],
       check_number = None, check_amount = None, date_issued = None, bank_branch = None,
       carrier_name = None, pay_type = None, pi_note = None\<rparr>\<rparr>)
     (2024, 3, 5) ''Mary'' ''Jones'' [''D0120'']
     (\<lparr>cc_claim_num = Some 11, cc_ClaimNum = None, cc_pat_num = Some 4, cc_PatNum = None,
       cc_date_of_service = Some ''2024-03-05'', cc_claim_date = None, cc_DateService = None,
       cc_claim_status = Some ''S'', cc_ClaimStatus = None, cc_is_secondary = None,
       cc_IsSecondary = None, cc_patient_first_name = Some ''William'', cc_pat_fn = None,
       cc_patient_last_name = Some ''Smith'', cc_pat_ln = None, cc_procedures = Some
       [\<lparr>cp_proc_code = Some ''D0120'', cp_code = None, cp_CodeSent = None, cp_fee_billed
       = Some 50, cp_FeeBilled = None\<rparr>], cc_claim_procs = None, cc_subscriber_first_name
       = None, cc_subscriber_last_name = None, cc_plan_type = None, cc_ClaimType = None,
       cc_has_secondary_plan = None, cc_is_supplemental = None\<rparr>)
     = Skipped NameSkip"
proof -
  let ?rx = "\<lparr>nick_search = (\<lambda>q s. (if q = s then RxMatch else RxNoMatch)), part_search = (\<lambda>q s. (if q = s then RxMatch else RxNoMatch))\<rparr>"
  let ?claim = "\<lparr>ac_ClaimNum = Some 7, ac_PatNum = Some 3, ac_DateService = Some ''2024-03-05'', ac_ClaimStatus = Some ''S'', ac_ClaimType = Some ''P'', ac_InsSubNum2 = None, ac_PlanNum2 = None, ac_ClaimFee = Some (PyNum 50)\<rparr>"
  let ?procs = "[\<lparr>cp_proc_code = None, cp_code = None, cp_CodeSent = Some ''D0120'', cp_fee_billed = None, cp_FeeBilled = Some 50\<rparr>]"
  let ?crit = "\<lparr>date_of_service = ''2024-03-05'', patient_first_name = ''Smith'', patient_last_name = ''William'', subscriber_first_name = '''', subscriber_last_name = '''', payment_info = \<lparr>procedures = [\<lparr>proc_code = ''D0120'', submitted_amt = 50, amount_paid = 50, remarks = '''', deductible = 0, writeoff = 0, markAsNotReceived = False\<rparr>], check_number = None, check_amount = None, date_issued = None, bank_branch = None, carrier_name = None, pay_type = None, pi_note = None\<rparr>\<rparr>"
  let ?bad = "\<lparr>date_of_service = ''2024-03-05'', patient_first_name = ''Mary'', patient_last_name = ''Jones'', subscriber_first_name = '''', subscriber_last_name = '''', payment_info = \<lparr>procedures = [\<lparr>proc_code = ''D0120'', submitted_amt = 50, amount_paid = 50, remarks = '''', deductible = 0, writeoff = 0, markAsNotReceived = False\<rparr>], check_number = None, check_amount = None, date_issued = None, bank_branch = None, carrier_name = None, pay_type = None, pi_note = None\<rparr>\<rparr>"
  let ?owner = "\<lparr>pd_PatNum = Some 3, pd_FName = Some ''William'', pd_LName = Some ''Smith''\<rparr>"
  let ?cc = "\<lparr>cc_claim_num = Some 11, cc_ClaimNum = None, cc_pat_num = Some 4, cc_PatNum = None, cc_date_of_service = Some ''2024-03-05'', cc_claim_date = None, cc_DateService = None, cc_claim_status = Some ''S'', cc_ClaimStatus = None, cc_is_secondary = None, cc_IsSecondary = None, cc_patient_first_name = Some ''William'', cc_pat_fn = None, cc_patient_last_name = Some ''Smith'', cc_pat_ln = None, cc_procedures = Some [\<lparr>cp_proc_code = Some ''D0120'', cp_code = None, cp_CodeSent = None, cp_fee_billed = Some 50, cp_FeeBilled = None\<rparr>], cc_claim_procs = None, cc_subscriber_first_name = None, cc_subscriber_last_name = None, cc_plan_type = None, cc_ClaimType = None, cc_has_secondary_plan = None, cc_is_supplemental = None\<rparr>"
  let ?m = "\<lparr>claim_num = 11, pat_num = Some 4, cm_date_of_service = ''2024-03-05'', is_secondary = PBool False, has_secondary_plan = False, has_pending_secondary = False, match_score = Some 100, match_source = ''database_strict'', claim_procs = [\<lparr>mp_CodeSent = Some ''D0120'', mp_FeeBilled = 50\<rparr>], is_supplemental = False, claim_status = Some ''S''\<rparr>"
  let ?d = "(2024::nat, 3::nat, 5::nat)"
  have s1: "calculate_name_match_score_with_nicknames ?rx (Some ''William'') (Some ''Smith'')
              ''Smith'' ''William'' = 0" by code_simp
  have s2: "calculate_name_match_score_with_nicknames ?rx (Some ''William'') (Some ''Smith'')
              ''William'' ''Smith'' = 30" by code_simp
  have b1: "calculate_name_match_score_with_nicknames ?rx (Some ''William'') (Some ''Smith'')
              ''Mary'' ''Jones'' = 0" by code_simp
  have b2: "calculate_name_match_score_with_nicknames ?rx (Some ''William'') (Some ''Smith'')
              ''Jones'' ''Mary'' = 0" by code_simp
  have d: "strptime ''2024-03-05'' = Some ?d" by code_simp
  have g: "cached_status_gate ?cc" by code_simp
  have o: "or_str (or_str (cc_date_of_service ?cc) (cc_claim_date ?cc)) (cc_DateService ?cc)
             = Some ''2024-03-05''"
    "or_str (cc_patient_first_name ?cc) (cc_pat_fn ?cc) = Some ''William''"
    "or_str (cc_patient_last_name ?cc) (cc_pat_ln ?cc) = Some ''Smith''" by code_simp+
  have v: "api_candidate_verdict ?rx ?claim ?procs ?crit ?owner = Inr (Passed 100 False [])"
    by code_simp
  have c: "cached_claim_step ?rx ?crit ?d ''Smith'' ''William'' [''D0120''] ?cc = Matched ?m"
    by code_simp
  have vb: "api_candidate_verdict ?rx ?claim ?procs ?bad ?owner = Inr (Rejected NameGate)"
    using name_swap_gate [of ?claim ?d ?bad ?rx ?procs ?owner ?cc "''2024-03-05''" ?d
            "''William''" "''Smith''" "''Mary''" "''Jones''" "[''D0120'']"]
      d b1 b2 by simp
  have cb: "cached_claim_step ?rx ?bad ?d ''Mary'' ''Jones'' [''D0120''] ?cc = Skipped NameSkip"
    using name_swap_gate [of ?claim ?d ?bad ?rx ?procs ?owner ?cc "''2024-03-05''" ?d
            "''William''" "''Smith''" "''Mary''" "''Jones''" "[''D0120'']"]
      d g o b1 b2 by simp
  from s1 s2 v vb c cb show ?thesis by blast
qed

section \<open>The subscriber bonus of the cache path\<close>









section \<open>Unparseable criteria dates\<close>

text \<open>
  C9. When the criteria's date of service does not parse, both the cache path and the
  remote search return the empty list; neither raises.
\<close>

theorem unparseable_criteria_date:
  "strptime (date_of_service crit) = None \<Longrightarrow>
     filter_cached_claims rx crit claims_data = Inr []
     \<and> find_matching_claims rx rem crit = Inr []"
  by (simp add: filter_cached_claims_def find_matching_claims_def Let_def)

theorem unparseable_criteria_date_witness:
  "strptime ''03/05/2024'' = None
   \<and> filter_cached_claims
     (\<lparr>nick_search = (\<lambda>q s. (if q = s then RxMatch else RxNoMatch)), part_search
       = (\<lambda>q s. (if q = s then RxMatch else RxNoMatch))\<rparr>)
     (\<lparr>date_of_service = ''03/05/2024'', patient_first_name = ''John'', patient_last_name
       = ''Smith'', subscriber_first_name = '''', subscriber_last_name = '''', payment_info =
       \<lparr>procedures = [\<lparr>proc_code = ''D0120'', submitted_amt = 50, amount_paid =
       50, remarks = '''', deductible = 0, writeoff = 0, markAsNotReceived = False\<rparr>],
       check_number = None, check_amount = None, date_issued = None, bank_branch = None,
       carrier_name = None, pay_type = None, pi_note = None\<rparr>\<rparr>)
     (Some [\<lparr>cc_claim_num = Some 11, cc_ClaimNum = None, cc_pat_num = Some 4, cc_PatNum =
       None, cc_date_of_service = Some ''2024-03-05'', cc_claim_date = None, cc_DateService =
       None, cc_claim_status = Some ''S'', cc_ClaimStatus = None, cc_is_secondary = None,
       cc_IsSecondary = None, cc_patient_first_name = Some ''John'', cc_pat_fn = None,
       cc_patient_last_name = Some ''Smith'', cc_pat_ln = None, cc_procedures = Some
       [\<lparr>cp_proc_code = Some ''D0120'', cp_code = None, cp_CodeSent = None, cp_fee_billed
       = Some 50, cp_FeeBilled = None\<rparr>], cc_claim_procs = None, cc_subscriber_first_name
       = None, cc_subscriber_last_name = None, cc_plan_type = None, cc_ClaimType = None,
       cc_has_secondary_plan = None, cc_is_supplemental = None\<rparr>])
     = Inr []
   \<and> find_matching_claims
     (\<lparr>nick_search = (\<lambda>q s. (if q = s then RxMatch else RxNoMatch)), part_search
       = (\<lambda>q s. (if q = s then RxMatch else RxNoMatch))\<rparr>)
     (\<lparr>get_patient_data = (\<lambda>l f. Some (\<lparr>pd_PatNum = Some 3, pd_FName =
       Some ''John'', pd_LName = Some ''Smith''\<rparr>, [\<lparr>ac_ClaimNum = Some 7,
       ac_PatNum = Some 3, ac_DateService = Some ''2024-03-05'', ac_ClaimStatus = Some ''S'',
       ac_ClaimType = Some ''P'', ac_InsSubNum2 = None, ac_PlanNum2 = None, ac_ClaimFee = Some (PyNum 50)\<rparr>])),
       get_subscriber_data = (\<lambda>l f. None), req_claimprocs = (\<lambda>n. Inr (Some
       [\<lparr>cp_proc_code = None, cp_code = None, cp_CodeSent = Some ''D0120'', cp_fee_billed
       = None, cp_FeeBilled = Some 50\<rparr>])), req_claims_by_inssub = (\<lambda>n. Inr None),
       req_patient = (\<lambda>n. Inr None), req_patplans = (\<lambda>n. Inr None)\<rparr>)
     (\<lparr>date_of_service = ''03/05/2024'', patient_first_name = ''John'', patient_last_name
       = ''Smith'', subscriber_first_name = '''', subscriber_last_name = '''', payment_info =
       \<lparr>procedures = [\<lparr>proc_code = ''D0120'', submitted_amt = 50, amount_paid =
       50, remarks = '''', deductible = 0, writeoff = 0, markAsNotReceived = False\<rparr>],
       check_number = None, check_amount = None, date_issued = None, bank_branch = None,
       carrier_name = None, pay_type = None, pi_note = None\<rparr>\<rparr>)
     = Inr []"
proof -
  let ?rx = "\<lparr>nick_search = (\<lambda>q s. (if q = s then RxMatch else RxNoMatch)), part_search = (\<lambda>q s. (if q = s then RxMatch else RxNoMatch))\<rparr>"
  let ?crit = "\<lparr>date_of_service = ''03/05/2024'', patient_first_name = ''John'', patient_last_name = ''Smith'', subscriber_first_name = '''', subscriber_last_name = '''', payment_info = \<lparr>procedures = [\<lparr>proc_code = ''D0120'', submitted_amt = 50, amount_paid = 50, remarks = '''', deductible = 0, writeoff = 0, markAsNotReceived = False\<rparr>], check_number = None, check_amount = None, date_issued = None, bank_branch = None, carrier_name = None, pay_type = None, pi_note = None\<rparr>\<rparr>"
  let ?cc = "\<lparr>cc_claim_num = Some 11, cc_ClaimNum = None, cc_pat_num = Some 4, cc_PatNum = None, cc_date_of_service = Some ''2024-03-05'', cc_claim_date = None, cc_DateService = None, cc_claim_status = Some ''S'', cc_ClaimStatus = None, cc_is_secondary = None, cc_IsSecondary = None, cc_patient_first_name = Some ''John'', cc_pat_fn = None, cc_patient_last_name = Some ''Smith'', cc_pat_ln = None, cc_procedures = Some [\<lparr>cp_proc_code = Some ''D0120'', cp_code = None, cp_CodeSent = None, cp_fee_billed = Some 50, cp_FeeBilled = None\<rparr>], cc_claim_procs = None, cc_subscriber_first_name = None, cc_subscriber_last_name = None, cc_plan_type = None, cc_ClaimType = None, cc_has_secondary_plan = None, cc_is_supplemental = None\<rparr>"
  let ?rem = "\<lparr>get_patient_data = (\<lambda>l f. Some (\<lparr>pd_PatNum = Some 3, pd_FName = Some ''John'', pd_LName = Some ''Smith''\<rparr>, [\<lparr>ac_ClaimNum = Some 7, ac_PatNum = Some 3, ac_DateService = Some ''2024-03-05'', ac_ClaimStatus = Some ''S'', ac_ClaimType = Some ''P'', ac_InsSubNum2 = None, ac_PlanNum2 = None, ac_ClaimFee = Some (PyNum 50)\<rparr>])), get_subscriber_data = (\<lambda>l f. None), req_claimprocs = (\<lambda>n. Inr (Some [\<lparr>cp_proc_code = None, cp_code = None, cp_CodeSent = Some ''D0120'', cp_fee_billed = None, cp_FeeBilled = Some 50\<rparr>])), req_claims_by_inssub = (\<lambda>n. Inr None), req_patient = (\<lambda>n. Inr None), req_patplans = (\<lambda>n. Inr None)\<rparr>"
  have d: "strptime ''03/05/2024'' = None" by (simp add: strptime_def)
  then have h: "strptime (date_of_service ?crit) = None" by simp
  from unparseable_criteria_date [OF h, of ?rx "Some [?cc]" ?rem] d
  show ?thesis by simp
qed

section \<open>The source tag of the cache path\<close>



section \<open>Primary and secondary matches\<close>

text \<open>
  C5. The claim: when primary and secondary matches both passed the checks, every
  primary is returned with \<open>has_pending_secondary\<close> true beside the secondaries; when
  only one group passed, that group is returned as it is. The cache path does not keep
  to it for a cached claim whose \<open>is_secondary\<close> is the string \<open>false\<close>. The status
  check of lines 968-970 reads such a string as a primary claim, and lets claim 11 of
  status \<open>R\<close> pass for that reason; line 1195 copies the string into the match, and the
  partition of lines 1221-1222 takes its truthiness, which is true. So claim 11 counts
  as a secondary match there: beside the primary claim 12 and no secondary claim, claim
  12 is returned flagged as having a pending secondary; and beside the secondary claim
  13, the primary claim 11 is returned without the flag.
\<close>

theorem pending_secondary_string_flag:
  "cached_status_gate
     (\<lparr>cc_claim_num = Some 11, cc_ClaimNum = None, cc_pat_num = Some 4, cc_PatNum = None,
       cc_date_of_service = Some ''2024-03-05'', cc_claim_date = None, cc_DateService = None,
       cc_claim_status = Some ''R'', cc_ClaimStatus = None, cc_is_secondary = Some (PStr
       ''false''), cc_IsSecondary = None, cc_patient_first_name = Some ''John'', cc_pat_fn =
       None, cc_patient_last_name = Some ''Smith'', cc_pat_ln = None, cc_procedures = Some
       [\<lparr>cp_proc_code = Some ''D0120'', cp_code = None, cp_CodeSent = None, cp_fee_billed
       = Some 50, cp_FeeBilled = None\<rparr>], cc_claim_procs = None, cc_subscriber_first_name
       = None, cc_subscriber_last_name = None, cc_plan_type = None, cc_ClaimType = None,
       cc_has_secondary_plan = None, cc_is_supplemental = None\<rparr>)
   \<and> filter_cached_claims
     (\<lparr>nick_search = (\<lambda>q s. RxNoMatch), part_search = (\<lambda>q s.
       RxNoMatch)\<rparr>)
     (\<lparr>date_of_service = ''2024-03-05'', patient_first_name = ''John'', patient_last_name
       = ''Smith'', subscriber_first_name = '''', subscriber_last_name = '''', payment_info =
       \<lparr>procedures = [\<lparr>proc_code = ''D0120'', submitted_amt = 50, amount_paid =
       50, remarks = '''', deductible = 0, writeoff = 0, markAsNotReceived = False\<rparr>],
       check_number = None, check_amount = None, date_issued = None, bank_branch = None,
       carrier_name = None, pay_type = None, pi_note = None\<rparr>\<rparr>)
     (Some [\<lparr>cc_claim_num = Some 11, cc_ClaimNum = None, cc_pat_num = Some 4, cc_PatNum =
       None, cc_date_of_service = Some ''2024-03-05'', cc_claim_date = None, cc_DateService =
       None, cc_claim_status = Some ''R'', cc_ClaimStatus = None, cc_is_secondary = Some (PStr
       ''false''), cc_IsSecondary = None, cc_patient_first_name = Some ''John'', cc_pat_fn =
       None, cc_patient_last_name = Some ''Smith'', cc_pat_ln = None, cc_procedures = Some
       [\<lparr>cp_proc_code = Some ''D0120'', cp_code = None, cp_CodeSent = None, cp_fee_billed
       = Some 50, cp_FeeBilled = None\<rparr>], cc_claim_procs = None, cc_subscriber_first_name
       = None, cc_subscriber_last_name = None, cc_plan_type = None, cc_ClaimType = None,
       cc_has_secondary_plan = None, cc_is_supplemental = None\<rparr>, \<lparr>cc_claim_num =
       Some 12, cc_ClaimNum = None, cc_pat_num = Some 4, cc_PatNum = None, cc_date_of_service =
       Some ''2024-03-05'', cc_claim_date = None, cc_DateService = None, cc_claim_status = Some
       ''S'', cc_ClaimStatus = None, cc_is_secondary = None, cc_IsSecondary = None,
       cc_patient_first_name = Some ''John'', cc_pat_fn = None, cc_patient_last_name = Some
       ''Smith'', cc_pat_ln = None, cc_procedures = Some [\<lparr>cp_proc_code = Some ''D0120'',
       cp_code = None, cp_CodeSent = None, cp_fee_billed = Some 50, cp_FeeBilled =
       None\<rparr>], cc_claim_procs = None, cc_subscriber_first_name = None,
       cc_subscriber_last_name = None, cc_plan_type = None, cc_ClaimType = None,
       cc_has_secondary_plan = None, cc_is_supplemental = None\<rparr>])
     = Inr
         [\<lparr>claim_num = 12, pat_num = Some 4, cm_date_of_service = ''2024-03-05'',
           is_secondary = PBool False, has_secondary_plan = False, has_pending_secondary = True,
           match_score = Some 100, match_source = ''database_strict'', claim_procs =
           [\<lparr>mp_CodeSent = Some ''D0120'', mp_FeeBilled = 50\<rparr>], is_supplemental =
           False, claim_status = Some ''S''\<rparr>, \<lparr>claim_num = 11, pat_num = Some 4,
           cm_date_of_service = ''2024-03-05'', is_secondary = PStr ''false'',
           has_secondary_plan = False, has_pending_secondary = False, match_score = Some 100,
           match_source = ''database_strict'', claim_procs = [\<lparr>mp_CodeSent = Some
           ''D0120'', mp_FeeBilled = 50\<rparr>], is_supplemental = False, claim_status = Some
           ''R''\<rparr>]
   \<and> filter_cached_claims
     (\<lparr>nick_search = (\<lambda>q s. RxNoMatch), part_search = (\<lambda>q s.
       RxNoMatch)\<rparr>)
     (\<lparr>date_of_service = ''2024-03-05'', patient_first_name = ''John'', patient_last_name
       = ''Smith'', subscriber_first_name = '''', subscriber_last_name = '''', payment_info =
       \<lparr>procedures = [\<lparr>proc_code = ''D0120'', submitted_amt = 50, amount_paid =
       50, remarks = '''', deductible = 0, writeoff = 0, markAsNotReceived = False\<rparr>],
       check_number = None, check_amount = None, date_issued = None, bank_branch = None,
       carrier_name = None, pay_type = None, pi_note = None\<rparr>\<rparr>)
     (Some [\<lparr>cc_claim_num = Some 11, cc_ClaimNum = None, cc_pat_num = Some 4, cc_PatNum =
       None, cc_date_of_service = Some ''2024-03-05'', cc_claim_date = None, cc_DateService =
       None, cc_claim_status = Some ''R'', cc_ClaimStatus = None, cc_is_secondary = Some (PStr
       ''false''), cc_IsSecondary = None, cc_patient_first_name = Some ''John'', cc_pat_fn =
       None, cc_patient_last_name = Some ''Smith'', cc_pat_ln = None, cc_procedures = Some
       [\<lparr>cp_proc_code = Some ''D0120'', cp_code = None, cp_CodeSent = None, cp_fee_billed
       = Some 50, cp_FeeBilled = None\<rparr>], cc_claim_procs = None, cc_subscriber_first_name
       = None, cc_subscriber_last_name = None, cc_plan_type = None, cc_ClaimType = None,
       cc_has_secondary_plan = None, cc_is_supplemental = None\<rparr>, \<lparr>cc_claim_num =
       Some 13, cc_ClaimNum = None, cc_pat_num = Some 4, cc_PatNum = None, cc_date_of_service =
       Some ''2024-03-05'', cc_claim_date = None, cc_DateService = None, cc_claim_status = Some
       ''S'', cc_ClaimStatus = None, cc_is_secondary = Some (PBool True), cc_IsSecondary = None,
       cc_patient_first_name = Some ''John'', cc_pat_fn = None, cc_patient_last_name = Some
       ''Smith'', cc_pat_ln = None, cc_procedures = Some [\<lparr>cp_proc_code = Some ''D0120'',
       cp_code = None, cp_CodeSent = None, cp_fee_billed = Some 50, cp_FeeBilled =
       None\<rparr>], cc_claim_procs = None, cc_subscriber_first_name = None,
       cc_subscriber_last_name = None, cc_plan_type = None, cc_ClaimType = None,
       cc_has_secondary_plan = None, cc_is_supplemental = None\<rparr>])
     = Inr
         [\<lparr>claim_num = 11, pat_num = Some 4, cm_date_of_service = ''2024-03-05'',
           is_secondary = PStr ''false'', has_secondary_plan = False, has_pending_secondary =
           False, match_score = Some 100, match_source = ''database_strict'', claim_procs =
           [\<lparr>mp_CodeSent = Some ''D0120'', mp_FeeBilled = 50\<rparr>], is_supplemental =
           False, claim_status = Some ''R''\<rparr>, \<lparr>claim_num = 13, pat_num = Some 4,
           cm_date_of_service = ''2024-03-05'', is_secondary = PBool True, has_secondary_plan =
           False, has_pending_secondary = False, match_score = Some 100, match_source =
           ''database_strict'', claim_procs = [\<lparr>mp_CodeSent = Some ''D0120'',
           mp_FeeBilled = 50\<rparr>], is_supplemental = False, claim_status = Some
           ''S''\<rparr>]"
  by code_simp
section \<open>The supplemental fallback\<close>

lemma matched_api_procedures_overlap:
  "matched_api_procedures S procs \<noteq> [] \<Longrightarrow>
     \<exists>p \<in> set procs. \<exists>code. cp_CodeSent p = Some code \<and> normalize_procedure_code code \<in> S"
proof (induction procs)
  case Nil
  then show ?case by simp
next
  case (Cons p procs)
  show ?case
  proof (cases "\<exists>code. cp_CodeSent p = Some code \<and> normalize_procedure_code code \<in> S")
    case True
    then show ?thesis by auto
  next
    case False
    then have "matched_api_procedures S (p # procs) = matched_api_procedures S procs"
      by (auto split: option.splits)
    with Cons show ?thesis by auto
  qed
qed

lemma supplemental_loop_props:
  assumes "supplemental_loop rem td S pat claims = Inr ms" and "m \<in> set ms"
  shows "is_supplemental m \<and> match_source m = ''api_supplemental'' \<and> match_score m = None
         \<and> \<not> has_pending_secondary m
         \<and> (\<exists>c \<in> set claims. ac_ClaimNum c = Some (claim_num m)
               \<and> strptime (opt_str (ac_DateService c)) = Some td
               \<and> claim_status m = ac_ClaimStatus c
               \<and> (\<exists>procs. req_claimprocs rem (claim_num m) = Inr (Some procs)
                     \<and> (\<exists>p \<in> set procs. \<exists>code. cp_CodeSent p = Some code
                           \<and> normalize_procedure_code code \<in> S)))"
  using assms
proof (induction claims arbitrary: ms)
  case Nil
  then show ?case by simp
next
  case (Cons c claims)
  show ?case
  proof (cases "strptime (opt_str (ac_DateService c)) = Some td")
    case False
    with Cons.prems have "supplemental_loop rem td S pat claims = Inr ms"
      by (auto split: option.splits if_splits)
    from Cons.IH [OF this Cons.prems(2)] show ?thesis by auto
  next
    case date: True
    show ?thesis
    proof (cases "ac_ClaimNum c")
      case None
      with date Cons.prems show ?thesis by simp
    next
      case (Some cn)
      show ?thesis
      proof (cases "req_claimprocs rem cn")
        case (Inl e)
        with date Some Cons.prems show ?thesis by simp
      next
        case (Inr response)
        let ?full = "case response of None \<Rightarrow> [] | Some l \<Rightarrow> l"
        let ?matched = "matched_api_procedures S ?full"
        show ?thesis
        proof (cases "?full = [] \<or> ?matched = []")
          case True
          with date Some Inr Cons.prems have "supplemental_loop rem td S pat claims = Inr ms"
            by (auto simp: Let_def)
          from Cons.IH [OF this Cons.prems(2)] show ?thesis by auto
        next
          case False
          then obtain procs where procs: "response = Some procs"
            by (cases response) auto
          with False have ne: "matched_api_procedures S procs \<noteq> []" by simp
          from date Some Inr False Cons.prems(1) obtain rest where
            rest: "supplemental_loop rem td S pat claims = Inr rest"
            and ms: "ms = \<lparr>claim_num = cn, pat_num = pat,
                          cm_date_of_service = opt_str (ac_DateService c),
                          is_secondary = PBool (ac_ClaimType c = Some ''S''),
                          has_secondary_plan =
                            ((case ac_InsSubNum2 c of None \<Rightarrow> 0 | Some n \<Rightarrow> n) > 0
                             \<or> (case ac_PlanNum2 c of None \<Rightarrow> 0 | Some n \<Rightarrow> n) > 0),
                          has_pending_secondary = False,
                          match_score = None,
                          match_source = ''api_supplemental'',
                          claim_procs = ?matched,
                          is_supplemental = True,
                          claim_status = ac_ClaimStatus c\<rparr> # rest"
            by (auto simp: Let_def split: sum.splits)
          from Cons.prems(2) ms consider (hd) "m = hd ms" | (tl) "m \<in> set rest" by auto
          then show ?thesis
          proof cases
            case hd
            from matched_api_procedures_overlap [OF ne] procs Inr Some date
            show ?thesis unfolding hd ms by auto
          next
            case tl
            from Cons.IH [OF rest tl] show ?thesis by auto
          qed
        qed
      qed
    qed
  qed
qed

text \<open>
  C6. Every match returned by the supplemental fallback is flagged supplemental, has the
  source tag \<open>api_supplemental\<close> and no score, and stands for a claim of the resolved
  patient whose status is R or S, whose date of service parses to the criteria's date,
  and one of whose procedure lines has a normalized code in the set of the criteria's
  normalized codes.
\<close>

theorem supplemental_matches_invariant:
  assumes "m \<in> set (find_matching_claims_api_fallback rem crit skip_api_fallback)"
  shows "is_supplemental m \<and> match_source m = ''api_supplemental'' \<and> match_score m = None
         \<and> (\<exists>first_name patient claims c td procs.
               get_patient_data rem (patient_last_name crit) first_name = Some (patient, claims)
               \<and> c \<in> set claims
               \<and> ac_ClaimNum c = Some (claim_num m)
               \<and> ac_ClaimStatus c \<in> {Some ''R'', Some ''S''}
               \<and> strptime (date_of_service crit) = Some td
               \<and> strptime (opt_str (ac_DateService c)) = Some td
               \<and> req_claimprocs rem (claim_num m) = Inr (Some procs)
               \<and> (\<exists>p \<in> set procs. \<exists>code. cp_CodeSent p = Some code
                     \<and> normalize_procedure_code code
                         \<in> normalize_procedure_code `
                             {proc_code q | q. q \<in> set (procedures (payment_info crit))
                                               \<and> proc_code q \<noteq> []}))"
proof -
  from assms obtain ms where body: "fallback_body rem crit = Inr ms" and m: "m \<in> set ms"
    unfolding find_matching_claims_api_fallback_def
    by (cases "fallback_body rem crit") (auto split: if_splits)
  let ?S = "set (map (\<lambda>p. normalize_procedure_code (proc_code p))
                   (filter (\<lambda>p. proc_code p \<noteq> []) (procedures (payment_info crit))))"
  have S: "?S = normalize_procedure_code `
                  {proc_code q | q. q \<in> set (procedures (payment_info crit)) \<and> proc_code q \<noteq> []}"
    by auto
  from body m obtain first_name patient claims td where
    gp: "get_patient_data rem (patient_last_name crit) first_name = Some (patient, claims)"
    and td: "strptime (date_of_service crit) = Some td"
    and loop: "supplemental_loop rem td ?S (pd_PatNum patient)
                 (filter (\<lambda>c. ac_ClaimStatus c \<in> {Some ''R'', Some ''S''}) claims) = Inr ms"
    unfolding fallback_body_def Let_def
    by (auto split: if_splits sum.splits option.splits list.splits prod.splits)
  from supplemental_loop_props [OF loop m] obtain c procs where
    fields: "is_supplemental m" "match_source m = ''api_supplemental''" "match_score m = None"
    and c: "c \<in> set (filter (\<lambda>c. ac_ClaimStatus c \<in> {Some ''R'', Some ''S''}) claims)"
      "ac_ClaimNum c = Some (claim_num m)" "strptime (opt_str (ac_DateService c)) = Some td"
    and procs: "req_claimprocs rem (claim_num m) = Inr (Some procs)"
      "\<exists>p \<in> set procs. \<exists>code. cp_CodeSent p = Some code \<and> normalize_procedure_code code \<in> ?S"
    by blast
  from c(1) have c': "c \<in> set claims" "ac_ClaimStatus c \<in> {Some ''R'', Some ''S''}" by auto
  have "\<exists>first_name patient claims c td procs.
               get_patient_data rem (patient_last_name crit) first_name = Some (patient, claims)
               \<and> c \<in> set claims
               \<and> ac_ClaimNum c = Some (claim_num m)
               \<and> ac_ClaimStatus c \<in> {Some ''R'', Some ''S''}
               \<and> strptime (date_of_service crit) = Some td
               \<and> strptime (opt_str (ac_DateService c)) = Some td
               \<and> req_claimprocs rem (claim_num m) = Inr (Some procs)
               \<and> (\<exists>p \<in> set procs. \<exists>code. cp_CodeSent p = Some code
                     \<and> normalize_procedure_code code
                         \<in> normalize_procedure_code `
                             {proc_code q | q. q \<in> set (procedures (payment_info crit))
                                               \<and> proc_code q \<noteq> []})"
    using gp c' c(2,3) td procs unfolding S by blast
  with fields show ?thesis by blast
qed

theorem supplemental_matches_invariant_witness:
  "find_matching_claims_api_fallback
     (\<lparr>get_patient_data = (\<lambda>l f. Some (\<lparr>pd_PatNum = Some 4, pd_FName =
       Some ''John'', pd_LName = Some ''Smith''\<rparr>, [\<lparr>ac_ClaimNum = Some 31,
       ac_PatNum = Some 4, ac_DateService = Some ''2024-03-05'', ac_ClaimStatus = Some ''R'',
       ac_ClaimType = Some ''P'', ac_InsSubNum2 = None, ac_PlanNum2 = None, ac_ClaimFee = Some (PyNum 50)\<rparr>,
       \<lparr>ac_ClaimNum = Some 32, ac_PatNum = Some 4, ac_DateService = Some ''2024-03-05'',
       ac_ClaimStatus = Some ''H'', ac_ClaimType = Some ''P'', ac_InsSubNum2 = None, ac_PlanNum2
       = None, ac_ClaimFee = Some (PyNum 50)\<rparr>])), get_subscriber_data = (\<lambda>l f. None), req_claimprocs =
       (\<lambda>n. Inr (Some [\<lparr>cp_proc_code = None, cp_code = None, cp_CodeSent = Some
       ''0120'', cp_fee_billed = None, cp_FeeBilled = Some 50\<rparr>, \<lparr>cp_proc_code =
       None, cp_code = None, cp_CodeSent = Some ''D9999'', cp_fee_billed = None, cp_FeeBilled =
       Some 10\<rparr>])), req_claims_by_inssub = (\<lambda>n. Inr None), req_patient =
       (\<lambda>n. Inr None), req_patplans = (\<lambda>n. Inr None)\<rparr>)
     (\<lparr>date_of_service = ''2024-03-05'', patient_first_name = ''John Paul'',
       patient_last_name = ''Smith'', subscriber_first_name = '''', subscriber_last_name = '''',
       payment_info = \<lparr>procedures = [\<lparr>proc_code = ''D0120'', submitted_amt = 50,
       amount_paid = 50, remarks = '''', deductible = 0, writeoff = 0, markAsNotReceived =
       False\<rparr>], check_number = None, check_amount = None, date_issued = None, bank_branch
       = None, carrier_name = None, pay_type = None, pi_note = None\<rparr>\<rparr>)
     False
     = [\<lparr>claim_num = 31, pat_num = Some 4, cm_date_of_service = ''2024-03-05'', is_secondary = PBool False, has_secondary_plan = False, has_pending_secondary = False, match_score = None, match_source = ''api_supplemental'', claim_procs = [\<lparr>mp_CodeSent = Some ''0120'', mp_FeeBilled = 50\<rparr>], is_supplemental = True, claim_status = Some ''R''\<rparr>]
   \<and> normalize_procedure_code ''0120'' = normalize_procedure_code ''D0120''"
proof -
  let ?rem = "\<lparr>get_patient_data = (\<lambda>l f. Some (\<lparr>pd_PatNum = Some 4, pd_FName = Some ''John'', pd_LName = Some ''Smith''\<rparr>, [\<lparr>ac_ClaimNum = Some 31, ac_PatNum = Some 4, ac_DateService = Some ''2024-03-05'', ac_ClaimStatus = Some ''R'', ac_ClaimType = Some ''P'', ac_InsSubNum2 = None, ac_PlanNum2 = None, ac_ClaimFee = Some (PyNum 50)\<rparr>, \<lparr>ac_ClaimNum = Some 32, ac_PatNum = Some 4, ac_DateService = Some ''2024-03-05'', ac_ClaimStatus = Some ''H'', ac_ClaimType = Some ''P'', ac_InsSubNum2 = None, ac_PlanNum2 = None, ac_ClaimFee = Some (PyNum 50)\<rparr>])), get_subscriber_data = (\<lambda>l f. None), req_claimprocs = (\<lambda>n. Inr (Some [\<lparr>cp_proc_code = None, cp_code = None, cp_CodeSent = Some ''0120'', cp_fee_billed = None, cp_FeeBilled = Some 50\<rparr>, \<lparr>cp_proc_code = None, cp_code = None, cp_CodeSent = Some ''D9999'', cp_fee_billed = None, cp_FeeBilled = Some 10\<rparr>])), req_claims_by_inssub = (\<lambda>n. Inr None), req_patient = (\<lambda>n. Inr None), req_patplans = (\<lambda>n. Inr None)\<rparr>"
  let ?crit = "\<lparr>date_of_service = ''2024-03-05'', patient_first_name = ''John Paul'', patient_last_name = ''Smith'', subscriber_first_name = '''', subscriber_last_name = '''', payment_info = \<lparr>procedures = [\<lparr>proc_code = ''D0120'', submitted_amt = 50, amount_paid = 50, remarks = '''', deductible = 0, writeoff = 0, markAsNotReceived = False\<rparr>], check_number = None, check_amount = None, date_issued = None, bank_branch = None, carrier_name = None, pay_type = None, pi_note = None\<rparr>\<rparr>"
  let ?m = "\<lparr>claim_num = 31, pat_num = Some 4, cm_date_of_service = ''2024-03-05'', is_secondary = PBool False, has_secondary_plan = False, has_pending_secondary = False, match_score = None, match_source = ''api_supplemental'', claim_procs = [\<lparr>mp_CodeSent = Some ''0120'', mp_FeeBilled = 50\<rparr>], is_supplemental = True, claim_status = Some ''R''\<rparr>"
  have r: "find_matching_claims_api_fallback ?rem ?crit False = [?m]" by code_simp
  then have "?m \<in> set (find_matching_claims_api_fallback ?rem ?crit False)" by simp
  from supplemental_matches_invariant [OF this]
  have "is_supplemental ?m \<and> match_source ?m = ''api_supplemental'' \<and> match_score ?m = None"
    by blast
  moreover have "normalize_procedure_code ''0120'' = normalize_procedure_code ''D0120''"
    by code_simp
  ultimately show ?thesis using r by simp
qed


end
